theory Spec2Isabelle
  imports Main
begin

section \<open>Data model of index.js\<close>

text \<open>
  The script keeps a board as an object with the fields \<open>width\<close>, \<open>height\<close>, \<open>pawns\<close>
  (an object used as a dictionary from pawn id to pawn object) and \<open>grid\<close> (an array of
  row arrays whose elements are \<open>null\<close> or a pawn id).

  Two kinds of object are assigned to in place by the script: the \<open>pawns\<close> dictionary
  (\<open>board.pawns[id] = pawn\<close>, \<open>delete board.pawns[id]\<close>) and the row arrays
  (\<open>board.grid[row][col] = v\<close>). They live in an explicit store and a board refers to them
  by address, so that sharing between a board and its clone is visible. No statement of
  the script assigns to a field of a pawn object, of a position object or of a board
  object, nor to the outer grid array once \<open>createEmptyGrid\<close> has returned it; these are
  values. Numbers are the integers.

  The \<open>pawns\<close> dictionary is a plain object, created by \<open>{}\<close>. \<open>board.pawns[k]\<close> finds an
  own property of the dictionary or else follows its prototype chain, so it also finds
  the names that the dictionary inherits. The own properties are the pawns that were
  assigned under a name other than \<open>__proto__\<close> and not deleted. An assignment to the name
  \<open>__proto__\<close> creates no own property: it reaches the setter that every plain object
  inherits from \<open>Object.prototype\<close>, which makes the assigned pawn object the prototype
  of the dictionary. A dictionary is therefore a record of its own properties \<open>own\<close> and
  of its prototype \<open>proto\<close>, where \<open>None\<close> stands for \<open>Object.prototype\<close> and \<open>Some p\<close>
  for the pawn object \<open>p\<close>, itself a plain object. No dictionary has an own property named
  \<open>__proto__\<close>; the operations below neither create nor consult an entry of \<open>own\<close> under
  that name.
\<close>

datatype jsval = Undefined | Null | Str string

record position =
  row :: int
  col :: int

record pawn =
  pawn_id :: string
  color :: string
  position :: position
  hasMoved :: bool

record board =
  width :: int
  height :: int
  pawns :: nat
  grid :: "nat list"

text \<open>
  The store: address \<open>a\<close> of a dictionary is the index \<open>a\<close> of \<open>regs\<close>, address \<open>a\<close>
  of a row array is the index \<open>a\<close> of \<open>rows\<close>. Allocation appends, so the address of a
  new object is the length of the list before the allocation.
\<close>

record registry =
  own :: "string \<rightharpoonup> pawn"
  proto :: "pawn option"

record store =
  regs :: "registry list"
  rows :: "jsval list list"

text \<open>
  What \<open>board.pawns[k]\<close> can evaluate to: \<open>undefined\<close> (\<open>Absent\<close>), a pawn object, or
  something inherited. \<open>Builtin\<close> is a function of \<open>Object.prototype\<close> or that object
  itself; when the prototype is a pawn, its fields are inherited too: the strings \<open>id\<close>
  and \<open>color\<close>, the object \<open>position\<close> and the boolean \<open>hasMoved\<close>.
\<close>

datatype property =
  Absent | PawnObject pawn | PositionObject position | Text string | Flag bool | Builtin

text \<open>
  What a call can throw. The script throws \<open>Error\<close> objects that differ in their message;
  \<open>OutOfBounds\<close> stands for "Invalid position to place pawn" and "Cannot add pawn out of
  bounds", \<open>OccupiedSquare\<close> for "Position is already occupied" and "Square already
  occupied", \<open>PawnNotFound\<close> for "Pawn not found", \<open>IllegalMove\<close> for "Illegal move for
  pawn". \<open>TypeError\<close> is what the runtime throws when a property of \<open>undefined\<close> is read
  or written, \<open>RangeError\<close> what \<open>new Array(n)\<close> throws on an invalid length.
\<close>

datatype error = OutOfBounds | OccupiedSquare | PawnNotFound | IllegalMove | TypeError | RangeError

section \<open>Reading and writing the store\<close>

text \<open>\<open>!v\<close> is false exactly for the truthy values; the empty string is falsy.\<close>

fun truthy :: "jsval \<Rightarrow> bool" where
  "truthy Undefined = False"
| "truthy Null = False"
| "truthy (Str s) = (s \<noteq> [])"

text \<open>
  \<open>board.grid[r][c]\<close> as an expression: \<open>board.grid[r]\<close> is \<open>undefined\<close> outside the outer
  array and reading \<open>[c]\<close> of it throws; inside, an index outside the row reads
  \<open>undefined\<close>.
\<close>

definition grid_get :: "store \<Rightarrow> board \<Rightarrow> int \<Rightarrow> int \<Rightarrow> error + jsval" where
  "grid_get st b r c =
     (if 0 \<le> r \<and> nat r < length (grid b)
      then (let rw = rows st ! (grid b ! nat r)
            in Inr (if 0 \<le> c \<and> nat c < length rw then rw ! nat c else Undefined))
      else Inl TypeError)"

text \<open>
  \<open>arr[c] = v\<close> on a row array: inside the array it replaces the element, beyond the end
  it extends the array (the gap reads \<open>undefined\<close>), and a negative \<open>c\<close> names an ordinary
  property and leaves the elements alone.
\<close>

definition array_set :: "jsval list \<Rightarrow> int \<Rightarrow> jsval \<Rightarrow> jsval list" where
  "array_set xs c v =
     (if c < 0 then xs
      else if nat c < length xs then xs[nat c := v]
      else xs @ replicate (nat c - length xs) Undefined @ [v])"

text \<open>
  \<open>board.grid[r][c] = v\<close> as a statement: \<open>cell_set\<close> is the store after the
  assignment to the row that \<open>board.grid[r]\<close> refers to, and \<open>grid_set\<close> the statement
  itself, which throws when there is no such row.
\<close>

definition cell_set :: "store \<Rightarrow> board \<Rightarrow> int \<Rightarrow> int \<Rightarrow> jsval \<Rightarrow> store" where
  "cell_set st b r c v =
     st\<lparr>rows := (rows st)[grid b ! nat r := array_set (rows st ! (grid b ! nat r)) c v]\<rparr>"

definition grid_set :: "store \<Rightarrow> board \<Rightarrow> int \<Rightarrow> int \<Rightarrow> jsval \<Rightarrow> (error + unit) \<times> store" where
  "grid_set st b r c v =
     (if 0 \<le> r \<and> nat r < length (grid b) then (Inr (), cell_set st b r c v)
      else (Inl TypeError, st))"

text \<open>
  What the script asks of a value \<open>v\<close> read from the dictionary: \<open>!v\<close> and \<open>v.color\<close>. Only
  a pawn object has a \<open>color\<close>; on every other value that is not \<open>undefined\<close> it reads
  \<open>undefined\<close>, written \<open>None\<close>, for neither a string, a boolean, a position object nor
  a function of \<open>Object.prototype\<close> has a property of that name.
\<close>

fun truthy_property :: "property \<Rightarrow> bool" where
  "truthy_property Absent = False"
| "truthy_property (PawnObject p) = True"
| "truthy_property (PositionObject pos) = True"
| "truthy_property (Text s) = (s \<noteq> [])"
| "truthy_property (Flag f) = f"
| "truthy_property Builtin = True"

fun property_color :: "property \<Rightarrow> string option" where
  "property_color (PawnObject p) = Some (color p)"
| "property_color v = None"

text \<open>
  The names that a plain object inherits from \<open>Object.prototype\<close>, apart from \<open>__proto__\<close>;
  each is a function.
\<close>

definition objectPrototypeNames :: "string list" where
  "objectPrototypeNames =
     [''constructor'', ''hasOwnProperty'', ''isPrototypeOf'', ''propertyIsEnumerable'',
      ''toLocaleString'', ''toString'', ''valueOf'', ''__defineGetter__'', ''__defineSetter__'',
      ''__lookupGetter__'', ''__lookupSetter__'']"

text \<open>
  \<open>inherited pr k\<close>: what the name \<open>k\<close>, other than \<open>__proto__\<close>, reads on an object with
  the prototype \<open>pr\<close> and no own property \<open>k\<close>. A pawn object has the own properties
  \<open>id\<close>, \<open>color\<close>, \<open>position\<close> and \<open>hasMoved\<close>, and \<open>Object.prototype\<close> as prototype.
\<close>

definition inherited :: "pawn option \<Rightarrow> string \<Rightarrow> property" where
  "inherited pr k =
     (case pr of
        Some p \<Rightarrow>
          if k = ''id'' then Text (pawn_id p)
          else if k = ''color'' then Text (color p)
          else if k = ''position'' then PositionObject (position p)
          else if k = ''hasMoved'' then Flag (hasMoved p)
          else if k \<in> set objectPrototypeNames then Builtin else Absent
      | None \<Rightarrow> if k \<in> set objectPrototypeNames then Builtin else Absent)"

text \<open>
  \<open>d[k]\<close>, \<open>d[k] = p\<close> and \<open>delete d[k]\<close> on a dictionary \<open>d\<close>. The name \<open>__proto__\<close>
  reads the prototype and, assigned to, replaces it; \<open>delete\<close> removes an own property
  and leaves the prototype alone.
\<close>

definition dict_get :: "registry \<Rightarrow> string \<Rightarrow> property" where
  "dict_get d k =
     (if k = ''__proto__''
      then (case proto d of Some p \<Rightarrow> PawnObject p | None \<Rightarrow> Builtin)
      else (case own d k of Some p \<Rightarrow> PawnObject p | None \<Rightarrow> inherited (proto d) k))"

definition dict_set :: "registry \<Rightarrow> string \<Rightarrow> pawn \<Rightarrow> registry" where
  "dict_set d k p = (if k = ''__proto__'' then d\<lparr>proto := Some p\<rparr> else d\<lparr>own := (own d)(k \<mapsto> p)\<rparr>)"

definition dict_delete :: "registry \<Rightarrow> string \<Rightarrow> registry" where
  "dict_delete d k = d\<lparr>own := (own d)(k := None)\<rparr>"

text \<open>\<open>board.pawns[k]\<close>, \<open>board.pawns[k] = p\<close> and \<open>delete board.pawns[k]\<close>.\<close>

definition reg_get :: "store \<Rightarrow> board \<Rightarrow> string \<Rightarrow> property" where
  "reg_get st b k = dict_get (regs st ! pawns b) k"

definition reg_set :: "store \<Rightarrow> board \<Rightarrow> string \<Rightarrow> pawn \<Rightarrow> store" where
  "reg_set st b k p = st\<lparr>regs := (regs st)[pawns b := dict_set (regs st ! pawns b) k p]\<rparr>"

definition reg_delete :: "store \<Rightarrow> board \<Rightarrow> string \<Rightarrow> store" where
  "reg_delete st b k = st\<lparr>regs := (regs st)[pawns b := dict_delete (regs st ! pawns b) k]\<rparr>"

section \<open>The move rule engine\<close>

definition isValidPosition :: "board \<Rightarrow> int \<Rightarrow> int \<Rightarrow> bool" where
  "isValidPosition b r c = (r \<ge> 0 \<and> r < height b \<and> c \<ge> 0 \<and> c < width b)"

text \<open>The constants \<open>direction\<close> and \<open>forwardRow\<close> of \<open>getPawnAllowedMoves\<close>.\<close>

definition direction :: "pawn \<Rightarrow> int" where
  "direction p = (if color p = ''white'' then 1 else - 1)"

definition forwardRow :: "pawn \<Rightarrow> int" where
  "forwardRow p = row (position p) + direction p"

text \<open>
  The first block of \<open>getPawnAllowedMoves\<close>: the contents of \<open>moves\<close> after the forward
  tries. \<open>&&\<close> evaluates its right operand only when the left one holds, so a cell is
  read only after \<open>isValidPosition\<close> has accepted it.
\<close>

definition forwardMoves :: "store \<Rightarrow> pawn \<Rightarrow> board \<Rightarrow> error + position list" where
  "forwardMoves st p b =
     (let r = row (position p);
          c = col (position p)
      in if isValidPosition b (forwardRow p) c
         then (case grid_get st b (forwardRow p) c of
                 Inl e \<Rightarrow> Inl e
               | Inr v \<Rightarrow>
                   if v = Null
                   then (let twoForwardRow = r + 2 * direction p
                         in if \<not> hasMoved p \<and> isValidPosition b twoForwardRow c
                            then (case grid_get st b twoForwardRow c of
                                    Inl e \<Rightarrow> Inl e
                                  | Inr w \<Rightarrow>
                                      if w = Null
                                      then Inr [\<lparr>row = forwardRow p, col = c\<rparr>,
                                                \<lparr>row = twoForwardRow, col = c\<rparr>]
                                      else Inr [\<lparr>row = forwardRow p, col = c\<rparr>])
                            else Inr [\<lparr>row = forwardRow p, col = c\<rparr>])
                   else Inr [])
         else Inr [])"

text \<open>
  The loop over \<open>captureCols\<close>, with \<open>moves\<close> as accumulator; each \<open>continue\<close> goes on
  with the remaining columns and the same \<open>moves\<close>. \<open>targetPawn\<close> is whatever
  \<open>board.pawns[targetId]\<close> reads; when it is truthy and no pawn, \<open>targetPawn.color\<close> is
  \<open>undefined\<close>, which differs from the colour of the pawn.
\<close>

fun captureLoop ::
  "store \<Rightarrow> pawn \<Rightarrow> board \<Rightarrow> int \<Rightarrow> int list \<Rightarrow> position list \<Rightarrow> error + position list" where
  "captureLoop st p b fr [] moves = Inr moves"
| "captureLoop st p b fr (c # cs) moves =
     (if \<not> isValidPosition b fr c then captureLoop st p b fr cs moves
      else (case grid_get st b fr c of
              Inl e \<Rightarrow> Inl e
            | Inr targetId \<Rightarrow>
                if \<not> truthy targetId then captureLoop st p b fr cs moves
                else (case targetId of
                        Str k \<Rightarrow>
                          if \<not> truthy_property (reg_get st b k)
                          then captureLoop st p b fr cs moves
                          else if property_color (reg_get st b k) \<noteq> Some (color p)
                               then captureLoop st p b fr cs
                                      (moves @ [\<lparr>row = fr, col = c\<rparr>])
                               else captureLoop st p b fr cs moves
                      | _ \<Rightarrow> captureLoop st p b fr cs moves)))"

text \<open>
  \<open>getPawnAllowedMoves(pawn, board)\<close>. Like every operation below it returns its outcome
  together with the store it leaves behind.
\<close>

definition getPawnAllowedMoves ::
  "store \<Rightarrow> pawn \<Rightarrow> board \<Rightarrow> (error + position list) \<times> store" where
  "getPawnAllowedMoves st p b =
     (let c = col (position p)
      in case forwardMoves st p b of
           Inl e \<Rightarrow> (Inl e, st)
         | Inr moves \<Rightarrow> (captureLoop st p b (forwardRow p) [c - 1, c + 1] moves, st))"

section \<open>Building boards\<close>

text \<open>
  \<open>createEmptyGrid(width, height)\<close>: the loop allocates one row per iteration and pushes
  its address. \<open>new Array(width)\<close> throws unless \<open>width\<close> is an array length, that is
  unless \<open>0 \<le> width < 2^32\<close>.
\<close>

function createEmptyGridLoop ::
  "store \<Rightarrow> int \<Rightarrow> int \<Rightarrow> int \<Rightarrow> nat list \<Rightarrow> (error + nat list) \<times> store" where
  "createEmptyGridLoop st w h i g =
     (if i < h
      then (if w < 0 \<or> w \<ge> 2 ^ 32 then (Inl RangeError, st)
            else createEmptyGridLoop (st\<lparr>rows := rows st @ [replicate (nat w) Null]\<rparr>) w h (i + 1)
                   (g @ [length (rows st)]))
      else (Inr g, st))"
  by pat_completeness auto
termination
  by (relation "measure (\<lambda>(st, w, h, i, g). nat (h - i))") auto

definition createEmptyGrid :: "store \<Rightarrow> int \<Rightarrow> int \<Rightarrow> (error + nat list) \<times> store" where
  "createEmptyGrid st w h = createEmptyGridLoop st w h 0 []"

text \<open>
  \<open>createEmptyBoard(width, height)\<close>: the object literal evaluates \<open>{}\<close> for \<open>pawns\<close>
  before it calls \<open>createEmptyGrid\<close>.
\<close>

definition createEmptyBoard :: "store \<Rightarrow> int \<Rightarrow> int \<Rightarrow> (error + board) \<times> store" where
  "createEmptyBoard st w h =
     (let st1 = st\<lparr>regs := regs st @ [\<lparr>own = Map.empty, proto = None\<rparr>]\<rparr>
      in case createEmptyGrid st1 w h of
           (Inl e, st2) \<Rightarrow> (Inl e, st2)
         | (Inr g, st2) \<Rightarrow>
             (Inr \<lparr>width = w, height = h, pawns = length (regs st), grid = g\<rparr>, st2))"

text \<open>\<open>placePawn(board, pawn)\<close>.\<close>

definition placePawn :: "store \<Rightarrow> board \<Rightarrow> pawn \<Rightarrow> (error + unit) \<times> store" where
  "placePawn st b p =
     (let r = row (position p);
          c = col (position p)
      in if r < 0 \<or> r \<ge> height b \<or> c < 0 \<or> c \<ge> width b then (Inl OutOfBounds, st)
         else (case grid_get st b r c of
                 Inl e \<Rightarrow> (Inl e, st)
               | Inr v \<Rightarrow>
                   if v \<noteq> Null then (Inl OccupiedSquare, st)
                   else grid_set (reg_set st b (pawn_id p) p) b r c (Str (pawn_id p))))"

text \<open>
  \<open>"W" + id\<close> turns the number into its decimal numeral; \<open>natToString\<close> and \<open>numToString\<close>
  are that conversion on the naturals and on the integers (the script's numbers print so
  up to a magnitude of \<open>10^21\<close>, which the counter and the clock do not reach).
\<close>

fun natToString :: "nat \<Rightarrow> string" where
  "natToString n =
     (if n < 10 then [''0123456789'' ! n]
      else natToString (n div 10) @ [''0123456789'' ! (n mod 10)])"

declare natToString.simps [simp del]

definition numToString :: "int \<Rightarrow> string" where
  "numToString i = (if i < 0 then ''-'' @ natToString (nat (- i)) else natToString (nat i))"

text \<open>
  The two loops of \<open>createInitialBoard\<close>, with the loop variable \<open>i\<close> and the counter \<open>id\<close>
  as arguments; a loop returns the counter it leaves. An exception of \<open>placePawn\<close> ends
  the loop.
\<close>

function whiteLoop :: "store \<Rightarrow> board \<Rightarrow> int \<Rightarrow> int \<Rightarrow> (error + int) \<times> store" where
  "whiteLoop st b i n =
     (if i < 8
      then (case placePawn st b
                   \<lparr>pawn_id = ''W'' @ numToString n, color = ''white'',
                    position = \<lparr>row = 0, col = i\<rparr>, hasMoved = False\<rparr> of
              (Inl e, st1) \<Rightarrow> (Inl e, st1)
            | (Inr u, st1) \<Rightarrow>
                (case placePawn st1 b
                        \<lparr>pawn_id = ''W'' @ numToString (n + 1), color = ''white'',
                         position = \<lparr>row = 1, col = i\<rparr>, hasMoved = False\<rparr> of
                   (Inl e, st2) \<Rightarrow> (Inl e, st2)
                 | (Inr u, st2) \<Rightarrow> whiteLoop st2 b (i + 1) (n + 1 + 1)))
      else (Inr n, st))"
  by pat_completeness auto
termination
  by (relation "measure (\<lambda>(st, b, i, n). nat (8 - i))") auto

function blackLoop :: "store \<Rightarrow> board \<Rightarrow> int \<Rightarrow> int \<Rightarrow> (error + int) \<times> store" where
  "blackLoop st b i n =
     (if i < 8
      then (case placePawn st b
                   \<lparr>pawn_id = ''B'' @ numToString n, color = ''black'',
                    position = \<lparr>row = 6, col = i\<rparr>, hasMoved = False\<rparr> of
              (Inl e, st1) \<Rightarrow> (Inl e, st1)
            | (Inr u, st1) \<Rightarrow>
                (case placePawn st1 b
                        \<lparr>pawn_id = ''B'' @ numToString (n + 1), color = ''black'',
                         position = \<lparr>row = 7, col = i\<rparr>, hasMoved = False\<rparr> of
                   (Inl e, st2) \<Rightarrow> (Inl e, st2)
                 | (Inr u, st2) \<Rightarrow> blackLoop st2 b (i + 1) (n + 1 + 1)))
      else (Inr n, st))"
  by pat_completeness auto
termination
  by (relation "measure (\<lambda>(st, b, i, n). nat (8 - i))") auto

declare createEmptyGridLoop.simps [simp del] whiteLoop.simps [simp del] blackLoop.simps [simp del]

definition createInitialBoard :: "store \<Rightarrow> (error + board) \<times> store" where
  "createInitialBoard st =
     (case createEmptyBoard st 8 8 of
        (Inl e, st0) \<Rightarrow> (Inl e, st0)
      | (Inr b, st0) \<Rightarrow>
          (case whiteLoop st0 b 0 1 of
             (Inl e, st1) \<Rightarrow> (Inl e, st1)
           | (Inr n, st1) \<Rightarrow>
               (case blackLoop st1 b 0 n of
                  (Inl e, st2) \<Rightarrow> (Inl e, st2)
                | (Inr m, st2) \<Rightarrow> (Inr b, st2))))"

section \<open>The move executor\<close>

text \<open>
  The clone of \<open>movePawn\<close>: \<open>Object.assign({}, board.pawns)\<close> allocates a plain object and
  assigns it the own properties of \<open>board.pawns\<close>, so the copy has the same own properties
  and \<open>Object.prototype\<close> as prototype, whatever the prototype of \<open>board.pawns\<close> is;
  \<open>board.grid.map(row => row.slice())\<close> allocates a copy of every row and a new outer
  array of the copies' addresses.
\<close>

definition cloneBoard :: "store \<Rightarrow> board \<Rightarrow> board \<times> store" where
  "cloneBoard st b =
     (\<lparr>width = width b, height = height b, pawns = length (regs st),
       grid = [length (rows st) ..< length (rows st) + length (grid b)]\<rparr>,
      \<lparr>regs = regs st @ [\<lparr>own = own (regs st ! pawns b), proto = None\<rparr>],
       rows = rows st @ map (\<lambda>a. rows st ! a) (grid b)\<rparr>)"

text \<open>
  \<open>movePawn(board, pawnId, target)\<close>. A successful call returns the new board and the
  updated pawn. \<open>pawn\<close> is whatever \<open>board.pawns[pawnId]\<close> reads. When it is truthy and
  no pawn object, \<open>getPawnAllowedMoves\<close> throws on its first line, for \<open>pawn.position\<close>
  is \<open>undefined\<close> and has no \<open>row\<close>.
\<close>

definition movePawn ::
  "store \<Rightarrow> board \<Rightarrow> string \<Rightarrow> position \<Rightarrow> (error + board \<times> pawn) \<times> store" where
  "movePawn st b pawnId target =
     (if \<not> truthy_property (reg_get st b pawnId) then (Inl PawnNotFound, st)
      else case reg_get st b pawnId of
        PawnObject p \<Rightarrow>
          (case getPawnAllowedMoves st p b of
             (Inl e, st1) \<Rightarrow> (Inl e, st1)
           | (Inr legalMoves, st1) \<Rightarrow>
               if \<not> list_ex (\<lambda>pos. row pos = row target \<and> col pos = col target) legalMoves
               then (Inl IllegalMove, st1)
               else (case cloneBoard st1 b of
                       (newBoard, st2) \<Rightarrow>
                         (case grid_set st2 newBoard (row (position p)) (col (position p)) Null of
                            (Inl e, st3) \<Rightarrow> (Inl e, st3)
                          | (Inr u, st3) \<Rightarrow>
                              (case grid_get st3 newBoard (row target) (col target) of
                                 Inl e \<Rightarrow> (Inl e, st3)
                               | Inr targetId \<Rightarrow>
                                   (let st4 = (case targetId of
                                                 Str k \<Rightarrow>
                                                   if truthy targetId
                                                   then reg_delete st3 newBoard k else st3
                                               | _ \<Rightarrow> st3);
                                        updatedPawn =
                                          \<lparr>pawn_id = pawn_id p, color = color p,
                                           position = \<lparr>row = row target, col = col target\<rparr>,
                                           hasMoved = True\<rparr>;
                                        st5 = reg_set st4 newBoard (pawn_id p) updatedPawn
                                    in case grid_set st5 newBoard (row target) (col target)
                                              (Str (pawn_id p)) of
                                         (Inl e, st6) \<Rightarrow> (Inl e, st6)
                                       | (Inr u, st6) \<Rightarrow>
                                           (Inr (newBoard, updatedPawn), st6))))))
      | _ \<Rightarrow> (Inl TypeError, st))"

section \<open>Adding and removing pawns\<close>

text \<open>
  \<open>toUpperCase\<close> on one character, for the ASCII letters; other characters are returned
  as they are.
\<close>

definition toUpperCase :: "char \<Rightarrow> char" where
  "toUpperCase ch =
     (case map_of (zip ''abcdefghijklmnopqrstuvwxyz'' ''ABCDEFGHIJKLMNOPQRSTUVWXYZ'') ch of
        Some u \<Rightarrow> u
      | None \<Rightarrow> ch)"

text \<open>
  \<open>addPawn(board, color, row, col)\<close>. The clock and the random generator are inputs:
  \<open>now\<close> is the value of \<open>Date.now()\<close> and \<open>rnd\<close> the string
  \<open>Math.random().toString(16)\<close>, of which \<open>slice(2)\<close> drops the first two characters.
  \<open>color[0]\<close> is \<open>undefined\<close> for the empty string, and \<open>undefined.toUpperCase()\<close> throws.
\<close>

definition addPawn ::
  "store \<Rightarrow> board \<Rightarrow> string \<Rightarrow> int \<Rightarrow> int \<Rightarrow> int \<Rightarrow> string \<Rightarrow> (error + pawn) \<times> store" where
  "addPawn st b colr r c now rnd =
     (if \<not> isValidPosition b r c then (Inl OutOfBounds, st)
      else (case grid_get st b r c of
              Inl e \<Rightarrow> (Inl e, st)
            | Inr v \<Rightarrow>
                if v \<noteq> Null then (Inl OccupiedSquare, st)
                else (case colr of
                        [] \<Rightarrow> (Inl TypeError, st)
                      | ch # rest \<Rightarrow>
                          (let ident = [toUpperCase ch] @ ''_'' @ numToString now @ ''_'' @ drop 2 rnd;
                               p = \<lparr>pawn_id = ident, color = colr,
                                    position = \<lparr>row = r, col = c\<rparr>, hasMoved = False\<rparr>
                           in case placePawn st b p of
                                (Inl e, st1) \<Rightarrow> (Inl e, st1)
                              | (Inr u, st1) \<Rightarrow> (Inr p, st1)))))"

text \<open>
  \<open>removePawn(board, pawnId)\<close>. As in \<open>movePawn\<close>, a truthy value that is no pawn object
  has no \<open>position\<close>, and reading its \<open>row\<close> throws.
\<close>

definition removePawn :: "store \<Rightarrow> board \<Rightarrow> string \<Rightarrow> (error + unit) \<times> store" where
  "removePawn st b pawnId =
     (if \<not> truthy_property (reg_get st b pawnId) then (Inr (), st)
      else case reg_get st b pawnId of
        PawnObject p \<Rightarrow>
          (case grid_set st b (row (position p)) (col (position p)) Null of
             (Inl e, st1) \<Rightarrow> (Inl e, st1)
           | (Inr u, st1) \<Rightarrow> (Inr (), reg_delete st1 b pawnId))
      | _ \<Rightarrow> (Inl TypeError, st))"

section \<open>Well-formed boards\<close>

text \<open>
  The shape of a board of the data model: the grid has \<open>height\<close> rows of \<open>width\<close> cells,
  each row is an array of its own, and the addresses of the board are allocated.
\<close>

definition board_shape :: "store \<Rightarrow> board \<Rightarrow> bool" where
  "board_shape st b \<longleftrightarrow>
     0 \<le> height b \<and> 0 \<le> width b \<and> length (grid b) = nat (height b) \<and> distinct (grid b) \<and>
     pawns b < length (regs st) \<and>
     (\<forall>a \<in> set (grid b). a < length (rows st) \<and> length (rows st ! a) = nat (width b))"

text \<open>
  The consistency invariant of the data model, with \<open>pawns[X]\<close> read as the script reads
  it: an occupied cell holds an id under which the registry has a pawn at that cell,
  every pawn that the registry has under some id stands on the cell that holds its id,
  and no two such pawns share a position.
\<close>

definition board_consistent :: "store \<Rightarrow> board \<Rightarrow> bool" where
  "board_consistent st b \<longleftrightarrow>
     (\<forall>r c k. grid_get st b r c = Inr (Str k) \<longrightarrow>
        (\<exists>p. reg_get st b k = PawnObject p \<and> position p = \<lparr>row = r, col = c\<rparr>)) \<and>
     (\<forall>k p. reg_get st b k = PawnObject p \<longrightarrow>
        grid_get st b (row (position p)) (col (position p)) = Inr (Str (pawn_id p))) \<and>
     (\<forall>k k' p p'. reg_get st b k = PawnObject p \<and> reg_get st b k' = PawnObject p' \<and>
        position p = position p' \<longrightarrow> k = k')"

text \<open>
  \<open>plain_dictionary st b\<close>: the prototype of \<open>board.pawns\<close> is \<open>Object.prototype\<close>, that
  is, no pawn was placed under the id \<open>__proto__\<close>. \<open>own_keys st b\<close> are the names of the
  own properties of \<open>board.pawns\<close>, and \<open>registered st b\<close> is the registry as a map from
  ids to pawns: the pawn that \<open>board.pawns[k]\<close> reads, if it reads one.
\<close>

definition plain_dictionary :: "store \<Rightarrow> board \<Rightarrow> bool" where
  "plain_dictionary st b \<longleftrightarrow> proto (regs st ! pawns b) = None"

definition own_keys :: "store \<Rightarrow> board \<Rightarrow> string set" where
  "own_keys st b = dom (own (regs st ! pawns b))"

definition registered :: "store \<Rightarrow> board \<Rightarrow> string \<rightharpoonup> pawn" where
  "registered st b k = (case reg_get st b k of PawnObject p \<Rightarrow> Some p | _ \<Rightarrow> None)"

text \<open>
  What holds of every pawn that \<open>placePawn\<close> or \<open>movePawn\<close> registers, also when an id
  is used twice: it is registered under its own id and stands within the bounds of the
  board.
\<close>

definition pawns_on_board :: "store \<Rightarrow> board \<Rightarrow> bool" where
  "pawns_on_board st b \<longleftrightarrow>
     (\<forall>k p. reg_get st b k = PawnObject p \<longrightarrow>
        pawn_id p = k \<and> isValidPosition b (row (position p)) (col (position p)))"

text \<open>
  The same invariant on what the reads of a board return: \<open>G r c\<close> for the cell
  \<open>(r, c)\<close> and \<open>R k\<close> for the registry entry of \<open>k\<close>.
\<close>

definition consistent :: "(int \<Rightarrow> int \<Rightarrow> error + jsval) \<Rightarrow> (string \<rightharpoonup> pawn) \<Rightarrow> bool" where
  "consistent G R \<longleftrightarrow>
     (\<forall>r c k. G r c = Inr (Str k) \<longrightarrow> (\<exists>p. R k = Some p \<and> position p = \<lparr>row = r, col = c\<rparr>)) \<and>
     (\<forall>k p. R k = Some p \<longrightarrow> G (row (position p)) (col (position p)) = Inr (Str (pawn_id p))) \<and>
     (\<forall>k k' p p'. R k = Some p \<and> R k' = Some p' \<and> position p = position p' \<longrightarrow> k = k')"

text \<open>
  \<open>store_preserved st st'\<close>: every object of \<open>st\<close> is in \<open>st'\<close> with the contents it had;
  \<open>st'\<close> may hold more objects.
\<close>

definition store_preserved :: "store \<Rightarrow> store \<Rightarrow> bool" where
  "store_preserved st st' \<longleftrightarrow>
     take (length (regs st)) (regs st') = regs st \<and> take (length (rows st)) (rows st') = rows st"

section \<open>The move rules as the specification words them\<close>

text \<open>
  A cell is empty when it holds \<open>null\<close>. It is occupied by a pawn of the opposite colour
  when it holds an id under which the registry has a pawn whose colour differs from the
  moving pawn's. \<open>capturable\<close> is the test that the loop of the script makes instead: the
  id read from the cell is truthy, so not the empty string, what the dictionary reads
  under it is truthy, and the \<open>color\<close> of that is not the colour of the moving pawn.
\<close>

definition cell_empty :: "store \<Rightarrow> board \<Rightarrow> int \<Rightarrow> int \<Rightarrow> bool" where
  "cell_empty st b r c \<longleftrightarrow> grid_get st b r c = Inr Null"

definition occupied_by_opponent :: "store \<Rightarrow> board \<Rightarrow> pawn \<Rightarrow> int \<Rightarrow> int \<Rightarrow> bool" where
  "occupied_by_opponent st b p r c =
     (case grid_get st b r c of
        Inr (Str k) \<Rightarrow> (case reg_get st b k of PawnObject q \<Rightarrow> color q \<noteq> color p | _ \<Rightarrow> False)
      | _ \<Rightarrow> False)"

definition capturable :: "store \<Rightarrow> board \<Rightarrow> pawn \<Rightarrow> int \<Rightarrow> int \<Rightarrow> bool" where
  "capturable st b p r c =
     (case grid_get st b r c of
        Inr (Str k) \<Rightarrow>
          k \<noteq> [] \<and> truthy_property (reg_get st b k) \<and>
          property_color (reg_get st b k) \<noteq> Some (color p)
      | _ \<Rightarrow> False)"

text \<open>
  The algorithm of the specification, with the test for a capture as a parameter:
  forward one if that cell is in bounds and empty, then forward two if moreover the pawn
  has not moved and that cell is in bounds and empty, then the left diagonal, then the
  right diagonal, each if in bounds and accepted by \<open>capture\<close>.
\<close>

definition prescribed_moves ::
  "(int \<Rightarrow> int \<Rightarrow> bool) \<Rightarrow> store \<Rightarrow> pawn \<Rightarrow> board \<Rightarrow> position list" where
  "prescribed_moves capture st p b =
     (let r = row (position p);
          c = col (position p);
          d = direction p;
          f = r + d
      in (if isValidPosition b f c \<and> cell_empty st b f c
          then \<lparr>row = f, col = c\<rparr> #
               (if \<not> hasMoved p \<and> isValidPosition b (r + 2 * d) c \<and> cell_empty st b (r + 2 * d) c
                then [\<lparr>row = r + 2 * d, col = c\<rparr>] else [])
          else []) @
         (if isValidPosition b f (c - 1) \<and> capture f (c - 1) then [\<lparr>row = f, col = c - 1\<rparr>] else []) @
         (if isValidPosition b f (c + 1) \<and> capture f (c + 1) then [\<lparr>row = f, col = c + 1\<rparr>] else []))"

definition spec_getPawnAllowedMoves :: "store \<Rightarrow> pawn \<Rightarrow> board \<Rightarrow> position list" where
  "spec_getPawnAllowedMoves st p b = prescribed_moves (occupied_by_opponent st b p) st p b"

section \<open>The initial layout as the specification words it\<close>

text \<open>
  Thirty-two pawns numbered by one counter: the numbers 1 to 16 are white with the prefix
  \<open>W\<close> and fill rows 0 and 1, the numbers 17 to 32 are black with the prefix \<open>B\<close> and
  fill rows 6 and 7; within a colour the counter runs through the columns and, within a
  column, through the colour's two rows. No pawn has moved. \<open>spec_initialPawn n\<close> is
  the pawn with number \<open>n\<close>, \<open>spec_initialCell r c\<close> what the cell \<open>(r, c)\<close> holds.
\<close>

definition spec_initialPawn :: "int \<Rightarrow> pawn" where
  "spec_initialPawn n =
     (if n \<le> 16
      then \<lparr>pawn_id = ''W'' @ numToString n, color = ''white'',
            position = \<lparr>row = (n - 1) mod 2, col = (n - 1) div 2\<rparr>, hasMoved = False\<rparr>
      else \<lparr>pawn_id = ''B'' @ numToString n, color = ''black'',
            position = \<lparr>row = 6 + (n - 17) mod 2, col = (n - 17) div 2\<rparr>, hasMoved = False\<rparr>)"

definition spec_initialRegistry :: "string \<rightharpoonup> pawn" where
  "spec_initialRegistry =
     Map.empty (map (\<lambda>n. pawn_id (spec_initialPawn n)) [1..32] [\<mapsto>] map spec_initialPawn [1..32])"

definition spec_initialCell :: "int \<Rightarrow> int \<Rightarrow> jsval" where
  "spec_initialCell r c =
     (if r \<le> 1 then Str (''W'' @ numToString (2 * c + r + 1))
      else if 6 \<le> r then Str (''B'' @ numToString (2 * c + r + 11))
      else Null)"

definition spec_initialRows :: "jsval list list" where
  "spec_initialRows = map (\<lambda>r. map (\<lambda>c. spec_initialCell r c) [0..7]) [0..7]"

section \<open>Example boards\<close>

text \<open>
  A 3 by 3 board: the white pawn \<open>W1\<close> on (0, 1), the black pawn \<open>B2\<close> on (1, 0) and
  the white pawn \<open>W3\<close> on (1, 2). \<open>empty3\<close> is the store after
  \<open>createEmptyBoard(3, 3)\<close>, \<open>store3\<close> the store after the three pawns were placed, and
  \<open>store3_anonymous\<close> the store after \<open>W1\<close> and a black pawn with the empty string as id
  were placed.
\<close>

definition white1 :: pawn where
  "white1 = \<lparr>pawn_id = ''W1'', color = ''white'', position = \<lparr>row = 0, col = 1\<rparr>, hasMoved = False\<rparr>"

definition black2 :: pawn where
  "black2 = \<lparr>pawn_id = ''B2'', color = ''black'', position = \<lparr>row = 1, col = 0\<rparr>, hasMoved = False\<rparr>"

definition white3 :: pawn where
  "white3 = \<lparr>pawn_id = ''W3'', color = ''white'', position = \<lparr>row = 1, col = 2\<rparr>, hasMoved = False\<rparr>"

definition anonymous :: pawn where
  "anonymous = \<lparr>pawn_id = [], color = ''black'', position = \<lparr>row = 1, col = 0\<rparr>, hasMoved = False\<rparr>"

definition board3 :: board where
  "board3 = \<lparr>width = 3, height = 3, pawns = 0, grid = [0, 1, 2]\<rparr>"

definition empty3 :: store where
  "empty3 = \<lparr>regs = [\<lparr>own = Map.empty, proto = None\<rparr>],
             rows = [[Null, Null, Null], [Null, Null, Null], [Null, Null, Null]]\<rparr>"

definition store3 :: store where
  "store3 = \<lparr>regs = [\<lparr>own = [''W1'' \<mapsto> white1, ''B2'' \<mapsto> black2, ''W3'' \<mapsto> white3],
                        proto = None\<rparr>],
             rows = [[Null, Str ''W1'', Null], [Str ''B2'', Null, Str ''W3''], [Null, Null, Null]]\<rparr>"

definition store3_anonymous :: store where
  "store3_anonymous =
     \<lparr>regs = [\<lparr>own = [''W1'' \<mapsto> white1, [] \<mapsto> anonymous], proto = None\<rparr>],
      rows = [[Null, Str ''W1'', Null], [Str [], Null, Null], [Null, Null, Null]]\<rparr>"

text \<open>
  Pawns and stores that the examples below arrive at: \<open>added4\<close> is the pawn that
  \<open>addPawn(board, "black", 2, 2)\<close> returns when the clock reads 1700000000000 and the random
  number
  prints as \<open>0.8\<close>; \<open>added_first\<close> and \<open>added_second\<close> are the pawns of two such calls
  on the empty board, for (0, 0) and (1, 1), under the same clock and random number;
  \<open>board3_clone\<close>, \<open>white1_moved\<close> and \<open>store3_moved\<close> are what moving \<open>W1\<close> onto
  (1, 0) returns and leaves; \<open>white1_again\<close> is a second pawn with the id \<open>W1\<close>, for
  (2, 2), and \<open>store3_again\<close> the store after it was placed.
\<close>

definition added4 :: pawn where
  "added4 = \<lparr>pawn_id = ''B_1700000000000_8'', color = ''black'', position = \<lparr>row = 2, col = 2\<rparr>, hasMoved = False\<rparr>"

definition added_first :: pawn where
  "added_first = \<lparr>pawn_id = ''B_1700000000000_8'', color = ''black'', position = \<lparr>row = 0, col = 0\<rparr>, hasMoved = False\<rparr>"

definition added_second :: pawn where
  "added_second = \<lparr>pawn_id = ''B_1700000000000_8'', color = ''black'', position = \<lparr>row = 1, col = 1\<rparr>, hasMoved = False\<rparr>"

definition store_first :: store where
  "store_first = \<lparr>regs = [\<lparr>own = [''B_1700000000000_8'' \<mapsto> added_first], proto = None\<rparr>],
                  rows = [[Str ''B_1700000000000_8'', Null, Null], [Null, Null, Null], [Null, Null, Null]]\<rparr>"

definition store_second :: store where
  "store_second = \<lparr>regs = [\<lparr>own = [''B_1700000000000_8'' \<mapsto> added_second], proto = None\<rparr>],
                   rows = [[Str ''B_1700000000000_8'', Null, Null], [Null, Str ''B_1700000000000_8'', Null], [Null, Null, Null]]\<rparr>"

definition board3_clone :: board where
  "board3_clone = \<lparr>width = 3, height = 3, pawns = 1, grid = [3, 4, 5]\<rparr>"

definition white1_moved :: pawn where
  "white1_moved = \<lparr>pawn_id = ''W1'', color = ''white'', position = \<lparr>row = 1, col = 0\<rparr>, hasMoved = True\<rparr>"

definition store3_moved :: store where
  "store3_moved =
     \<lparr>regs = [\<lparr>own = [''W1'' \<mapsto> white1, ''B2'' \<mapsto> black2, ''W3'' \<mapsto> white3], proto = None\<rparr>,
              \<lparr>own = ([''W1'' \<mapsto> white1, ''B2'' \<mapsto> black2, ''W3'' \<mapsto> white3](''B2'' := None))
                       (''W1'' \<mapsto> white1_moved),
               proto = None\<rparr>],
      rows = [[Null, Str ''W1'', Null], [Str ''B2'', Null, Str ''W3''], [Null, Null, Null],
              [Null, Null, Null], [Str ''W1'', Null, Str ''W3''], [Null, Null, Null]]\<rparr>"







section \<open>Reads after writes\<close>

lemma regs_cell_set [simp]: "regs (cell_set st b r c v) = regs st"
  by (simp add: cell_set_def)

lemma length_rows_cell_set [simp]: "length (rows (cell_set st b r c v)) = length (rows st)"
  by (simp add: cell_set_def)

lemma reg_get_cell_set [simp]: "reg_get (cell_set st b r c v) b' k = reg_get st b' k"
  by (simp add: reg_get_def)

lemma rows_reg_set [simp]: "rows (reg_set st b k p) = rows st"
  by (simp add: reg_set_def)

lemma rows_reg_delete [simp]: "rows (reg_delete st b k) = rows st"
  by (simp add: reg_delete_def)

lemma length_regs_reg_set [simp]: "length (regs (reg_set st b k p)) = length (regs st)"
  by (simp add: reg_set_def)

lemma length_regs_reg_delete [simp]: "length (regs (reg_delete st b k)) = length (regs st)"
  by (simp add: reg_delete_def)

lemma grid_get_reg_set [simp]: "grid_get (reg_set st b k p) b' r c = grid_get st b' r c"
  by (simp add: grid_get_def)

lemma grid_get_reg_delete [simp]: "grid_get (reg_delete st b k) b' r c = grid_get st b' r c"
  by (simp add: grid_get_def)

lemma inherited_no_pawn [simp]: "inherited pr k \<noteq> PawnObject q"
  by (simp add: inherited_def split: option.splits)

lemma registered_iff: "registered st b k = Some p \<longleftrightarrow> reg_get st b k = PawnObject p"
  by (simp add: registered_def split: property.splits)

lemma registered_None_iff: "registered st b k = None \<longleftrightarrow> (\<forall>p. reg_get st b k \<noteq> PawnObject p)"
  by (simp add: registered_def split: property.splits)

lemma registered_cell_set [simp]: "registered (cell_set st b r c v) b' = registered st b'"
  by (rule ext) (simp add: registered_def)

lemma plain_dictionary_cell_set [simp]:
  "plain_dictionary (cell_set st b r c v) b' = plain_dictionary st b'"
  by (simp add: plain_dictionary_def)

lemma own_keys_cell_set [simp]: "own_keys (cell_set st b r c v) b' = own_keys st b'"
  by (simp add: own_keys_def)



lemma reg_get_reg_set_same:
  "pawns b < length (regs st) \<Longrightarrow> reg_get (reg_set st b k p) b k = PawnObject p"
  by (simp add: reg_get_def reg_set_def dict_get_def dict_set_def)

lemma reg_get_reg_set:
  "pawns b < length (regs st) \<Longrightarrow> k \<noteq> ''__proto__'' \<Longrightarrow>
   reg_get (reg_set st b k p) b k' = (if k' = k then PawnObject p else reg_get st b k')"
  by (simp add: reg_get_def reg_set_def dict_get_def dict_set_def split: option.splits)

lemma registered_reg_set:
  "pawns b < length (regs st) \<Longrightarrow>
   registered (reg_set st b k p) b k' = (if k' = k then Some p else registered st b k')"
  by (auto simp: registered_def reg_get_def reg_set_def dict_get_def dict_set_def
      split: option.splits property.splits)

lemma reg_get_reg_delete:
  "pawns b < length (regs st) \<Longrightarrow> k' \<noteq> k \<Longrightarrow>
   reg_get (reg_delete st b k) b k' = reg_get st b k'"
  by (simp add: reg_get_def reg_delete_def dict_get_def dict_delete_def split: option.splits)

lemma registered_reg_delete:
  "pawns b < length (regs st) \<Longrightarrow>
   registered (reg_delete st b k) b k' =
     (if k' = k \<and> k \<noteq> ''__proto__'' then None else registered st b k')"
  by (auto simp: registered_def reg_get_def reg_delete_def dict_get_def dict_delete_def
      split: option.splits property.splits)

lemma own_keys_reg_set:
  "pawns b < length (regs st) \<Longrightarrow> k \<noteq> ''__proto__'' \<Longrightarrow>
   own_keys (reg_set st b k p) b = insert k (own_keys st b)"
  by (simp add: own_keys_def reg_set_def dict_set_def)

lemma own_keys_reg_set_proto:
  "pawns b < length (regs st) \<Longrightarrow> own_keys (reg_set st b ''__proto__'' p) b = own_keys st b"
  by (simp add: own_keys_def reg_set_def dict_set_def)

lemma own_keys_reg_delete:
  "pawns b < length (regs st) \<Longrightarrow> own_keys (reg_delete st b k) b = own_keys st b - {k}"
  by (simp add: own_keys_def reg_delete_def dict_delete_def)

lemma plain_dictionary_reg_set:
  "pawns b < length (regs st) \<Longrightarrow>
   plain_dictionary (reg_set st b k p) b \<longleftrightarrow> k \<noteq> ''__proto__'' \<and> plain_dictionary st b"
  by (simp add: plain_dictionary_def reg_set_def dict_set_def)

lemma plain_dictionary_reg_delete:
  "pawns b < length (regs st) \<Longrightarrow>
   plain_dictionary (reg_delete st b k) b = plain_dictionary st b"
  by (simp add: plain_dictionary_def reg_delete_def dict_delete_def)

lemma board_shape_reg_set [simp]: "board_shape (reg_set st b k p) b' = board_shape st b'"
  by (simp add: board_shape_def)

lemma board_shape_reg_delete [simp]: "board_shape (reg_delete st b k) b' = board_shape st b'"
  by (simp add: board_shape_def)

lemma grid_get_valid:
  "board_shape st b \<Longrightarrow> isValidPosition b r c \<Longrightarrow>
   grid_get st b r c = Inr (rows st ! (grid b ! nat r) ! nat c)"
  by (auto simp: board_shape_def isValidPosition_def grid_get_def Let_def)

lemma grid_get_defined_valid:
  "board_shape st b \<Longrightarrow> grid_get st b r c = Inr v \<Longrightarrow> v \<noteq> Undefined \<Longrightarrow> isValidPosition b r c"
  by (auto simp: board_shape_def isValidPosition_def grid_get_def Let_def split: if_splits)

lemma grid_set_valid:
  "board_shape st b \<Longrightarrow> isValidPosition b r c \<Longrightarrow>
   grid_set st b r c v = (Inr (), cell_set st b r c v)"
  by (auto simp: board_shape_def isValidPosition_def grid_set_def)

lemma board_shape_cell_set:
  "board_shape st b \<Longrightarrow> isValidPosition b r c \<Longrightarrow> board_shape (cell_set st b r c v) b"
  by (auto simp: board_shape_def isValidPosition_def cell_set_def array_set_def nth_list_update)

lemma grid_get_cell_set:
  assumes "board_shape st b" "isValidPosition b r c"
  shows "grid_get (cell_set st b r c v) b r' c' =
         (if r' = r \<and> c' = c then Inr v else grid_get st b r' c')"
proof (cases "0 \<le> r' \<and> nat r' < length (grid b)")
  case False
  then show ?thesis using assms
    by (auto simp: grid_get_def isValidPosition_def board_shape_def)
next
  case True
  from assms have r: "0 \<le> r" "nat r < length (grid b)" and c: "0 \<le> c" "nat c < nat (width b)"
    by (auto simp: isValidPosition_def board_shape_def)
  from assms r have a: "grid b ! nat r < length (rows st)" "length (rows st ! (grid b ! nat r)) = nat (width b)"
    by (auto simp: board_shape_def)
  from assms True have a': "grid b ! nat r' < length (rows st)"
    by (auto simp: board_shape_def)
  have eq: "grid b ! nat r' = grid b ! nat r \<longleftrightarrow> r' = r"
    using assms True r by (auto simp: board_shape_def nth_eq_iff_index_eq)
  show ?thesis
    using True r c a a' eq
    by (auto simp: grid_get_def cell_set_def array_set_def Let_def nth_list_update)
qed

section \<open>Properties of the move rule engine\<close>

lemma grid_get_valid_Inr:
  "board_shape st b \<Longrightarrow> isValidPosition b r c \<Longrightarrow> \<exists>v. grid_get st b r c = Inr v"
  by (simp add: grid_get_valid)

lemma forwardMoves_prescribed:
  assumes "board_shape st b"
  shows "forwardMoves st p b =
         Inr (if isValidPosition b (forwardRow p) (col (position p)) \<and>
                 cell_empty st b (forwardRow p) (col (position p))
              then \<lparr>row = forwardRow p, col = col (position p)\<rparr> #
                   (if \<not> hasMoved p \<and>
                       isValidPosition b (row (position p) + 2 * direction p) (col (position p)) \<and>
                       cell_empty st b (row (position p) + 2 * direction p) (col (position p))
                    then [\<lparr>row = row (position p) + 2 * direction p, col = col (position p)\<rparr>]
                    else [])
              else [])"
proof -
  have v: "\<And>r c. isValidPosition b r c \<Longrightarrow> \<exists>v. grid_get st b r c = Inr v"
    using assms by (rule grid_get_valid_Inr)
  show ?thesis
  proof (cases "isValidPosition b (forwardRow p) (col (position p))")
    case False
    then show ?thesis by (simp add: forwardMoves_def Let_def)
  next
    case True
    then obtain v1 where v1: "grid_get st b (forwardRow p) (col (position p)) = Inr v1"
      using v by blast
    show ?thesis
    proof (cases "isValidPosition b (row (position p) + 2 * direction p) (col (position p))")
      case False
      with True v1 show ?thesis by (simp add: forwardMoves_def Let_def cell_empty_def)
    next
      case two: True
      then obtain v2 where
        v2: "grid_get st b (row (position p) + 2 * direction p) (col (position p)) = Inr v2"
        using v by blast
      with True two v1 show ?thesis by (simp add: forwardMoves_def Let_def cell_empty_def)
    qed
  qed
qed

lemma captureLoop_step:
  assumes "board_shape st b"
  shows "captureLoop st p b fr (c # cs) moves =
         captureLoop st p b fr cs
           (moves @ (if isValidPosition b fr c \<and> capturable st b p fr c
                     then [\<lparr>row = fr, col = c\<rparr>] else []))"
proof (cases "isValidPosition b fr c")
  case False
  then show ?thesis by simp
next
  case True
  then obtain v where v: "grid_get st b fr c = Inr v"
    using assms grid_get_valid_Inr by blast
  show ?thesis
    using True v
    by (cases v) (auto simp: capturable_def)
qed

lemma getPawnAllowedMoves_prescribed:
  assumes "board_shape st b"
  shows "getPawnAllowedMoves st p b = (Inr (prescribed_moves (capturable st b p) st p b), st)"
  using assms
  by (simp add: getPawnAllowedMoves_def forwardMoves_prescribed captureLoop_step
      prescribed_moves_def Let_def forwardRow_def del: captureLoop.simps(2))

lemma forwardMoves_members:
  "forwardMoves st p b = Inr fs \<Longrightarrow> m \<in> set fs \<Longrightarrow>
   isValidPosition b (row m) (col m) \<and> col m = col (position p) \<and> cell_empty st b (row m) (col m)"
  by (auto simp: forwardMoves_def Let_def cell_empty_def split: if_splits sum.splits)

lemma captureLoop_members:
  "captureLoop st p b fr cs moves = Inr ms \<Longrightarrow> m \<in> set ms \<Longrightarrow>
   m \<in> set moves \<or>
   (row m = fr \<and> col m \<in> set cs \<and> isValidPosition b (row m) (col m) \<and> capturable st b p (row m) (col m))"
proof (induction cs arbitrary: moves)
  case Nil
  then show ?case by simp
next
  case (Cons c cs)
  then show ?case
    by (fastforce simp: capturable_def split: if_splits sum.splits jsval.splits option.splits)
qed


lemma capturable_iff:
  "capturable st b p r c \<longleftrightarrow>
   (\<exists>k. grid_get st b r c = Inr (Str k) \<and> k \<noteq> [] \<and> truthy_property (reg_get st b k) \<and>
        property_color (reg_get st b k) \<noteq> Some (color p))"
  by (auto simp: capturable_def split: sum.splits jsval.splits)

lemma capturable_pawn:
  "capturable st b p r c \<Longrightarrow> grid_get st b r c = Inr (Str k) \<Longrightarrow> reg_get st b k = PawnObject q \<Longrightarrow>
   k \<noteq> [] \<and> color q \<noteq> color p"
  by (auto simp: capturable_iff)

lemma pawn_capturable:
  "grid_get st b r c = Inr (Str k) \<Longrightarrow> k \<noteq> [] \<Longrightarrow> reg_get st b k = PawnObject q \<Longrightarrow>
   color q \<noteq> color p \<Longrightarrow> capturable st b p r c"
  by (auto simp: capturable_iff)

lemma board_shape_store3: "board_shape store3 board3"
  by (simp add: board_shape_def store3_def board3_def)

lemma board_shape_store3_anonymous: "board_shape store3_anonymous board3"
  by (simp add: board_shape_def store3_anonymous_def board3_def)

lemma white1_fields:
  "pawn_id white1 = ''W1''" "color white1 = ''white''"
  "position white1 = \<lparr>row = 0, col = 1\<rparr>" "hasMoved white1 = False"
  by (simp_all add: white1_def)

lemma moves_white1_store3:
  "getPawnAllowedMoves store3 white1 board3 =
   (Inr [\<lparr>row = 1, col = 1\<rparr>, \<lparr>row = 2, col = 1\<rparr>, \<lparr>row = 1, col = 0\<rparr>], store3)"
  by (simp add: getPawnAllowedMoves_def forwardMoves_def forwardRow_def direction_def
      isValidPosition_def grid_get_def reg_get_def dict_get_def store3_def white1_def black2_def
      white3_def board3_def)

lemma store3_built:
  "createEmptyBoard \<lparr>regs = [], rows = []\<rparr> 3 3 = (Inr board3, empty3)"
  "placePawn empty3 board3 white1 = (Inr (), snd (placePawn empty3 board3 white1))"
  "placePawn (snd (placePawn empty3 board3 white1)) board3 black2 =
     (Inr (), snd (placePawn (snd (placePawn empty3 board3 white1)) board3 black2))"
  "placePawn (snd (placePawn (snd (placePawn empty3 board3 white1)) board3 black2)) board3 white3 =
     (Inr (), store3)"
  "placePawn (snd (placePawn empty3 board3 white1)) board3 anonymous = (Inr (), store3_anonymous)"
proof -
  have "replicate 3 Null = [Null, Null, Null]"
    by (simp add: numeral_3_eq_3)
  then show "createEmptyBoard \<lparr>regs = [], rows = []\<rparr> 3 3 = (Inr board3, empty3)"
    by (simp add: createEmptyBoard_def createEmptyGrid_def createEmptyGridLoop.simps
        empty3_def board3_def)
qed (simp_all add: placePawn_def grid_get_def grid_set_def cell_set_def array_set_def reg_set_def
      dict_set_def empty3_def store3_def store3_anonymous_def board3_def white1_def black2_def
      white3_def anonymous_def)

text \<open>
  C1. The algorithm of the specification offers a diagonal cell of the forward row as
  a capture when the cell is in bounds and occupied by a pawn of the opposite colour.
  \<open>placePawn\<close> accepts a black pawn whose id is the empty string; placed on (1, 0) of the
  3 by 3 board it occupies that cell, and the algorithm of the specification offers the
  white pawn on (0, 1) the moves (1, 1), (2, 1) and the capture on (1, 0).
  \<open>getPawnAllowedMoves\<close> returns (1, 1) and (2, 1) only: its loop leaves a cell whose id
  is falsy, where its forward tests and \<open>placePawn\<close> compare the cell with \<open>null\<close>.
\<close>

theorem getPawnAllowedMoves_skips_empty_id:
  "placePawn (snd (placePawn empty3 board3 white1)) board3 anonymous = (Inr (), store3_anonymous) \<and>
   grid_get store3_anonymous board3 1 0 = Inr (Str (pawn_id anonymous)) \<and>
   reg_get store3_anonymous board3 (pawn_id anonymous) = PawnObject anonymous \<and>
   color anonymous = ''black'' \<and> color white1 = ''white'' \<and>
   getPawnAllowedMoves store3_anonymous white1 board3 =
     (Inr [\<lparr>row = 1, col = 1\<rparr>, \<lparr>row = 2, col = 1\<rparr>], store3_anonymous) \<and>
   spec_getPawnAllowedMoves store3_anonymous white1 board3 =
     [\<lparr>row = 1, col = 1\<rparr>, \<lparr>row = 2, col = 1\<rparr>, \<lparr>row = 1, col = 0\<rparr>]"
proof (intro conjI)
  show "placePawn (snd (placePawn empty3 board3 white1)) board3 anonymous =
          (Inr (), store3_anonymous)"
    by (rule store3_built)
  show "grid_get store3_anonymous board3 1 0 = Inr (Str (pawn_id anonymous))"
    by (simp add: grid_get_def store3_anonymous_def anonymous_def board3_def)
  show "reg_get store3_anonymous board3 (pawn_id anonymous) = PawnObject anonymous"
    by (simp add: reg_get_def dict_get_def store3_anonymous_def anonymous_def board3_def)
  show "color anonymous = ''black''" "color white1 = ''white''"
    by (simp_all add: anonymous_def white1_def)
  show "getPawnAllowedMoves store3_anonymous white1 board3 =
          (Inr [\<lparr>row = 1, col = 1\<rparr>, \<lparr>row = 2, col = 1\<rparr>], store3_anonymous)"
    by (simp add: getPawnAllowedMoves_def forwardMoves_def forwardRow_def direction_def
        isValidPosition_def grid_get_def reg_get_def dict_get_def store3_anonymous_def white1_def
        anonymous_def board3_def)
  show "spec_getPawnAllowedMoves store3_anonymous white1 board3 =
          [\<lparr>row = 1, col = 1\<rparr>, \<lparr>row = 2, col = 1\<rparr>, \<lparr>row = 1, col = 0\<rparr>]"
    by (simp add: spec_getPawnAllowedMoves_def prescribed_moves_def cell_empty_def
        occupied_by_opponent_def direction_def isValidPosition_def grid_get_def reg_get_def
        dict_get_def store3_anonymous_def white1_def anonymous_def board3_def)
qed

text \<open>
  C10. A pawn whose forward row is outside the board is offered no move at all, on any
  board and in any store: the forward cell and both diagonal cells lie in that row.
\<close>

theorem far_edge_no_moves:
  "forwardRow p < 0 \<or> height b \<le> forwardRow p \<Longrightarrow> getPawnAllowedMoves st p b = (Inr [], st)"
  by (auto simp: getPawnAllowedMoves_def forwardMoves_def isValidPosition_def)

text \<open>The two edges: a white pawn on the last row, a pawn of another colour on row 0.\<close>

lemma forwardRow_far_edge:
  "color p = ''white'' \<Longrightarrow> row (position p) = height b - 1 \<Longrightarrow> height b \<le> forwardRow p"
  "color p \<noteq> ''white'' \<Longrightarrow> row (position p) = 0 \<Longrightarrow> forwardRow p < 0"
  by (simp_all add: forwardRow_def direction_def)

theorem far_edge_no_moves_witness:
  "(forwardRow (white1\<lparr>position := \<lparr>row = 2, col = 1\<rparr>\<rparr>) < 0 \<or>
    height board3 \<le> forwardRow (white1\<lparr>position := \<lparr>row = 2, col = 1\<rparr>\<rparr>)) \<and>
   getPawnAllowedMoves store3 (white1\<lparr>position := \<lparr>row = 2, col = 1\<rparr>\<rparr>) board3 = (Inr [], store3)"
  using far_edge_no_moves [of "white1\<lparr>position := \<lparr>row = 2, col = 1\<rparr>\<rparr>" board3 store3]
  by (simp add: forwardRow_def direction_def white1_def board3_def)

section \<open>Old objects are preserved\<close>

lemma store_preserved_refl [simp]: "store_preserved st st"
  by (simp add: store_preserved_def)

lemma store_preserved_trans:
  "store_preserved st st' \<Longrightarrow> store_preserved st' st'' \<Longrightarrow> store_preserved st st''"
  unfolding store_preserved_def
  by (metis length_take min.absorb2 nat_le_linear take_all take_take min.commute)

lemma store_preserved_nth:
  assumes "store_preserved st st'"
  shows "a < length (regs st) \<Longrightarrow> regs st' ! a = regs st ! a"
    and "a < length (rows st) \<Longrightarrow> rows st' ! a = rows st ! a"
    and "length (regs st) \<le> length (regs st')"
    and "length (rows st) \<le> length (rows st')"
proof -
  from assms have t: "take (length (regs st)) (regs st') = regs st"
    "take (length (rows st)) (rows st') = rows st"
    by (simp_all add: store_preserved_def)
  show "a < length (regs st) \<Longrightarrow> regs st' ! a = regs st ! a"
    using t(1) by (metis nth_take)
  show "a < length (rows st) \<Longrightarrow> rows st' ! a = rows st ! a"
    using t(2) by (metis nth_take)
  show "length (regs st) \<le> length (regs st')"
    using t(1) by (metis length_take min.cobounded1 min.commute)
  show "length (rows st) \<le> length (rows st')"
    using t(2) by (metis length_take min.cobounded1 min.commute)
qed

lemma store_preserved_reads:
  assumes "store_preserved st st'" "board_shape st b"
  shows "board_shape st' b" "grid_get st' b r c = grid_get st b r c" "reg_get st' b k = reg_get st b k"
proof -
  note n = store_preserved_nth [OF assms(1)]
  from assms(2) have a: "\<forall>a \<in> set (grid b). a < length (rows st)" and p: "pawns b < length (regs st)"
    by (auto simp: board_shape_def)
  show "board_shape st' b"
    using assms(2) n a p unfolding board_shape_def
    by (auto simp: less_le_trans)
  show "grid_get st' b r c = grid_get st b r c"
    using a n(2) by (auto simp: grid_get_def Let_def)
  show "reg_get st' b k = reg_get st b k"
    using p n(1) by (simp add: reg_get_def)
qed

lemma store_preserved_registry:
  assumes "store_preserved st st'" "board_shape st b"
  shows "registered st' b = registered st b" "own_keys st' b = own_keys st b"
    "plain_dictionary st' b = plain_dictionary st b"
proof -
  from assms(2) have "pawns b < length (regs st)" by (simp add: board_shape_def)
  with store_preserved_nth(1) [OF assms(1)] have r: "regs st' ! pawns b = regs st ! pawns b"
    by simp
  show "registered st' b = registered st b"
    by (rule ext) (simp add: registered_def reg_get_def r)
  show "own_keys st' b = own_keys st b" "plain_dictionary st' b = plain_dictionary st b"
    by (simp_all add: own_keys_def plain_dictionary_def r)
qed


section \<open>Placing, adding and removing\<close>

lemma grid_get_Inr_grid_set:
  "grid_get st b r c = Inr v \<Longrightarrow> grid_set st' b r c' w = (Inr (), cell_set st' b r c' w)"
  by (auto simp: grid_get_def grid_set_def split: if_splits)

lemma placePawn_failure_unchanged: "placePawn st b p = (Inl e, st') \<Longrightarrow> st' = st"
  by (auto simp: placePawn_def Let_def grid_get_Inr_grid_set split: if_splits sum.splits)

lemma placePawn_shape:
  assumes "board_shape st b"
  shows "placePawn st b p =
         (if \<not> isValidPosition b (row (position p)) (col (position p)) then (Inl OutOfBounds, st)
          else if grid_get st b (row (position p)) (col (position p)) \<noteq> Inr Null
               then (Inl OccupiedSquare, st)
               else (Inr (), cell_set (reg_set st b (pawn_id p) p) b
                               (row (position p)) (col (position p)) (Str (pawn_id p))))"
proof (cases "isValidPosition b (row (position p)) (col (position p))")
  case False
  then show ?thesis by (auto simp: placePawn_def isValidPosition_def Let_def)
next
  case True
  then obtain v where v: "grid_get st b (row (position p)) (col (position p)) = Inr v"
    using assms grid_get_valid_Inr by blast
  from True have nb: "\<not> (row (position p) < 0 \<or> height b \<le> row (position p) \<or>
      col (position p) < 0 \<or> width b \<le> col (position p))"
    by (auto simp: isValidPosition_def)
  show ?thesis
    using True v nb assms
    by (simp add: placePawn_def Let_def grid_set_valid)
qed

lemma addPawn_failure_unchanged: "addPawn st b colr r c now rnd = (Inl e, st') \<Longrightarrow> st' = st"
  by (auto simp: addPawn_def Let_def split: if_splits sum.splits list.splits prod.splits
      dest: placePawn_failure_unchanged)

lemma addPawn_success:
  assumes "addPawn st b colr r c now rnd = (Inr q, st')"
  shows "isValidPosition b r c \<and> grid_get st b r c = Inr Null \<and>
         color q = colr \<and> position q = \<lparr>row = r, col = c\<rparr> \<and> hasMoved q = False \<and>
         placePawn st b q = (Inr (), st')"
  using assms
  by (auto simp: addPawn_def Let_def split: if_splits sum.splits list.splits prod.splits)



lemma removePawn_present:
  "board_shape st b \<Longrightarrow> reg_get st b k = PawnObject p \<Longrightarrow>
   isValidPosition b (row (position p)) (col (position p)) \<Longrightarrow>
   removePawn st b k =
     (Inr (), reg_delete (cell_set st b (row (position p)) (col (position p)) Null) b k)"
  by (simp add: removePawn_def grid_set_valid)


section \<open>Moving\<close>

lemma cloneBoard_preserved: "store_preserved st (snd (cloneBoard st b))"
  by (simp add: cloneBoard_def store_preserved_def)

lemma cloneBoard_fresh:
  "pawns (fst (cloneBoard st b)) = length (regs st)"
  "set (grid (fst (cloneBoard st b))) = {length (rows st) ..< length (rows st) + length (grid b)}"
  "width (fst (cloneBoard st b)) = width b"
  "height (fst (cloneBoard st b)) = height b"
  by (simp_all add: cloneBoard_def)

lemma grid_get_cloneBoard:
  "grid_get (snd (cloneBoard st b)) (fst (cloneBoard st b)) r c = grid_get st b r c"
  by (simp add: cloneBoard_def grid_get_def nth_append Let_def)

lemma registered_cloneBoard:
  "registered (snd (cloneBoard st b)) (fst (cloneBoard st b)) k =
     (if k = ''__proto__'' then None else registered st b k)"
  by (auto simp: cloneBoard_def registered_def reg_get_def dict_get_def
      split: option.splits property.splits)

lemma own_keys_cloneBoard:
  "own_keys (snd (cloneBoard st b)) (fst (cloneBoard st b)) = own_keys st b"
  by (simp add: cloneBoard_def own_keys_def)

lemma isValidPosition_cloneBoard:
  "isValidPosition (fst (cloneBoard st b)) r c = isValidPosition b r c"
  by (simp add: cloneBoard_def isValidPosition_def)

lemma board_shape_cloneBoard:
  "board_shape st b \<Longrightarrow> board_shape (snd (cloneBoard st b)) (fst (cloneBoard st b))"
  by (auto simp: cloneBoard_def board_shape_def nth_append)

lemma store_preserved_cell_set:
  "store_preserved st st' \<Longrightarrow> length (rows st) \<le> grid nb ! nat r \<Longrightarrow>
   store_preserved st (cell_set st' nb r c v)"
  by (simp add: store_preserved_def cell_set_def)

lemma store_preserved_grid_set:
  "store_preserved st st' \<Longrightarrow> \<forall>a \<in> set (grid nb). length (rows st) \<le> a \<Longrightarrow>
   store_preserved st (snd (grid_set st' nb r c v))"
  by (auto simp: grid_set_def intro: store_preserved_cell_set)

lemma store_preserved_reg_set:
  "store_preserved st st' \<Longrightarrow> length (regs st) \<le> pawns nb \<Longrightarrow>
   store_preserved st (reg_set st' nb k p)"
  by (simp add: store_preserved_def reg_set_def)

lemma store_preserved_reg_delete:
  "store_preserved st st' \<Longrightarrow> length (regs st) \<le> pawns nb \<Longrightarrow>
   store_preserved st (reg_delete st' nb k)"
  by (simp add: store_preserved_def reg_delete_def)

lemma getPawnAllowedMoves_store [simp]: "snd (getPawnAllowedMoves st p b) = st"
  by (simp add: getPawnAllowedMoves_def Let_def split: sum.splits)

lemma store_preserved_grid_set_eq:
  "grid_set st' nb r c v = (res, st'') \<Longrightarrow> store_preserved st st' \<Longrightarrow>
   \<forall>a \<in> set (grid nb). length (rows st) \<le> a \<Longrightarrow> store_preserved st st''"
  using store_preserved_grid_set [of st st' nb r c v] by simp

lemma movePawn_preserved: "store_preserved st (snd (movePawn st b k t))"
proof (cases "\<exists>p. reg_get st b k = PawnObject p")
  case False
  then show ?thesis by (cases "reg_get st b k") (simp_all add: movePawn_def)
next
  case True
  then obtain p where Some: "reg_get st b k = PawnObject p" ..
  obtain res where g: "getPawnAllowedMoves st p b = (res, st)"
    by (metis getPawnAllowedMoves_store prod.collapse)
  define nb where "nb = fst (cloneBoard st b)"
  define st2 where "st2 = snd (cloneBoard st b)"
  have cl: "cloneBoard st b = (nb, st2)" by (simp add: nb_def st2_def)
  have fresh: "\<forall>a \<in> set (grid nb). length (rows st) \<le> a" "length (regs st) \<le> pawns nb"
    by (simp_all add: nb_def cloneBoard_fresh)
  have p2: "store_preserved st st2" by (simp add: st2_def cloneBoard_preserved)
  obtain r3 st3 where s3: "grid_set st2 nb (row (position p)) (col (position p)) Null = (r3, st3)"
    by force
  have p3: "store_preserved st st3"
    using s3 p2 fresh(1) by (rule store_preserved_grid_set_eq)
  define st4 where
    "st4 v = (case v of Str x \<Rightarrow> if truthy v then reg_delete st3 nb x else st3 | _ \<Rightarrow> st3)" for v
  have p4: "store_preserved st (st4 v)" for v
    using p3 fresh(2) by (cases v) (simp_all add: st4_def store_preserved_reg_delete)
  define st5 where
    "st5 v = reg_set (st4 v) nb (pawn_id p)
               \<lparr>pawn_id = pawn_id p, color = color p,
                position = \<lparr>row = row t, col = col t\<rparr>, hasMoved = True\<rparr>" for v
  have p5: "store_preserved st (st5 v)" for v
    unfolding st5_def using p4 fresh(2) by (rule store_preserved_reg_set)
  have p6: "store_preserved st (snd (grid_set (st5 v) nb (row t) (col t) (Str (pawn_id p))))" for v
    using p5 fresh(1) by (rule store_preserved_grid_set)
  show ?thesis
  proof (cases res)
    case (Inl e)
    with Some g show ?thesis by (simp add: movePawn_def)
  next
    case (Inr ms)
    show ?thesis
    proof (cases "list_ex (\<lambda>pos. row pos = row t \<and> col pos = col t) ms")
      case False
      with Some g Inr show ?thesis by (simp add: movePawn_def)
    next
      case True
      show ?thesis
      proof (cases r3)
        case (Inl e)
        with Some g Inr True cl s3 p3 show ?thesis by (simp add: movePawn_def)
      next
        case u: (Inr u)
        show ?thesis
        proof (cases "grid_get st3 nb (row t) (col t)")
          case (Inl e)
          with Some g Inr True cl s3 u p3 show ?thesis by (simp add: movePawn_def)
        next
          case v: (Inr v)
          obtain r6 st6 where
            s6: "grid_set (st5 v) nb (row t) (col t) (Str (pawn_id p)) = (r6, st6)"
            by force
          with p6 [of v] have "store_preserved st st6" by simp
          with Some g Inr True cl s3 u v s6 show ?thesis
            by (cases r6) (simp_all add: movePawn_def Let_def st5_def st4_def)
        qed
      qed
    qed
  qed
qed

lemma direction_cases: "direction p = 1 \<or> direction p = - 1"
  by (simp add: direction_def)

lemma forwardMoves_rows:
  "forwardMoves st p b = Inr fs \<Longrightarrow> m \<in> set fs \<Longrightarrow>
   row m = forwardRow p \<or> row m = row (position p) + 2 * direction p"
  by (auto simp: forwardMoves_def Let_def split: if_splits sum.splits)

lemma legal_target:
  assumes "getPawnAllowedMoves st p b = (Inr ms, st')" and "m \<in> set ms"
  shows "isValidPosition b (row m) (col m) \<and> row m \<noteq> row (position p) \<and>
         (cell_empty st b (row m) (col m) \<or> capturable st b p (row m) (col m))"
proof -
  from assms(1) obtain fs where
    fs: "forwardMoves st p b = Inr fs" and
    ms: "captureLoop st p b (forwardRow p) [col (position p) - 1, col (position p) + 1] fs = Inr ms"
    by (auto simp: getPawnAllowedMoves_def Let_def split: sum.splits)
  from captureLoop_members [OF ms assms(2)] show ?thesis
  proof
    assume m: "m \<in> set fs"
    from forwardMoves_members [OF fs m] forwardMoves_rows [OF fs m] direction_cases [of p]
    show ?thesis by (auto simp: forwardRow_def)
  next
    assume "row m = forwardRow p \<and> col m \<in> set [col (position p) - 1, col (position p) + 1] \<and>
            isValidPosition b (row m) (col m) \<and> capturable st b p (row m) (col m)"
    with direction_cases [of p] show ?thesis by (auto simp: forwardRow_def)
  qed
qed

lemma list_ex_position:
  "list_ex (\<lambda>pos. row pos = row t \<and> col pos = col t) ms \<longleftrightarrow> (t::position) \<in> set ms"
proof -
  have "row pos = row t \<and> col pos = col t \<longleftrightarrow> pos = t" for pos :: position
    by (cases pos, cases t) simp
  then show ?thesis by (auto simp: list_ex_iff)
qed

lemma movePawn_success:
  assumes sh: "board_shape st b" and reg: "reg_get st b k = PawnObject p"
    and src: "isValidPosition b (row (position p)) (col (position p))"
    and g: "getPawnAllowedMoves st p b = (Inr ms, st)" and t: "t \<in> set ms"
  shows "\<exists>st'. movePawn st b k t =
            (Inr (fst (cloneBoard st b),
                  \<lparr>pawn_id = pawn_id p, color = color p, position = t, hasMoved = True\<rparr>), st') \<and>
          board_shape st' (fst (cloneBoard st b)) \<and>
          (\<forall>r c. grid_get st' (fst (cloneBoard st b)) r c =
             (if r = row t \<and> c = col t then Inr (Str (pawn_id p))
              else if r = row (position p) \<and> c = col (position p) then Inr Null
              else grid_get st b r c)) \<and>
          (\<forall>k'. registered st' (fst (cloneBoard st b)) k' =
             (if k' = pawn_id p
              then Some \<lparr>pawn_id = pawn_id p, color = color p, position = t, hasMoved = True\<rparr>
              else if k' = ''__proto__'' \<or>
                      k' \<noteq> [] \<and> grid_get st b (row t) (col t) = Inr (Str k') then None
              else registered st b k')) \<and>
          own_keys st' (fst (cloneBoard st b)) =
            (if pawn_id p = ''__proto__'' then {} else {pawn_id p}) \<union>
            (own_keys st b - {x. x \<noteq> [] \<and> grid_get st b (row t) (col t) = Inr (Str x)})"
proof -
  define nb where "nb = fst (cloneBoard st b)"
  define st2 where "st2 = snd (cloneBoard st b)"
  define q where "q = \<lparr>pawn_id = pawn_id p, color = color p, position = t, hasMoved = True\<rparr>"
  have cl: "cloneBoard st b = (nb, st2)" by (simp add: nb_def st2_def)
  have tq: "\<lparr>row = row t, col = col t\<rparr> = t" by simp
  from legal_target [OF g t] have
    tv: "isValidPosition b (row t) (col t)" and tr: "row t \<noteq> row (position p)"
    by simp_all
  have sh2: "board_shape st2 nb"
    unfolding st2_def nb_def using sh by (rule board_shape_cloneBoard)
  have v2: "isValidPosition nb r c = isValidPosition b r c" for r c
    by (simp add: nb_def isValidPosition_cloneBoard)
  have g2: "grid_get st2 nb r c = grid_get st b r c" for r c
    by (simp add: nb_def st2_def grid_get_cloneBoard)
  have r2: "registered st2 nb k' = (if k' = ''__proto__'' then None else registered st b k')" for k'
    by (simp add: nb_def st2_def registered_cloneBoard)
  have o2: "own_keys st2 nb = own_keys st b"
    by (simp add: nb_def st2_def own_keys_cloneBoard)
  define st3 where "st3 = cell_set st2 nb (row (position p)) (col (position p)) Null"
  have s3: "grid_set st2 nb (row (position p)) (col (position p)) Null = (Inr (), st3)"
    using sh2 src by (simp add: grid_set_valid v2 st3_def)
  have sh3: "board_shape st3 nb"
    unfolding st3_def using sh2 src by (simp add: board_shape_cell_set v2)
  have g3: "grid_get st3 nb r c =
            (if r = row (position p) \<and> c = col (position p) then Inr Null else grid_get st b r c)"
    for r c
    unfolding st3_def using sh2 src by (simp add: grid_get_cell_set v2 g2)
  have r3: "registered st3 nb k' = (if k' = ''__proto__'' then None else registered st b k')" for k'
    by (simp add: st3_def r2)
  have o3: "own_keys st3 nb = own_keys st b"
    by (simp add: st3_def o2)
  obtain v where v: "grid_get st b (row t) (col t) = Inr v"
    using sh tv grid_get_valid_Inr by blast
  have v3: "grid_get st3 nb (row t) (col t) = Inr v"
    using tr v by (simp add: g3)
  define st4 where
    "st4 = (case v of Str x \<Rightarrow> if truthy v then reg_delete st3 nb x else st3 | _ \<Rightarrow> st3)"
  have pn: "pawns nb < length (regs st3)"
    using sh3 by (simp add: board_shape_def)
  have sh4: "board_shape st4 nb"
    using sh3 by (cases v) (simp_all add: st4_def)
  have g4: "grid_get st4 nb r c = grid_get st3 nb r c" for r c
    by (cases v) (simp_all add: st4_def)
  have r4: "registered st4 nb k' =
            (if k' = ''__proto__'' \<or> k' \<noteq> [] \<and> v = Str k' then None else registered st b k')"
    for k'
    using pn by (cases v) (auto simp: st4_def registered_reg_delete r3)
  have o4: "own_keys st4 nb = own_keys st b - {x. x \<noteq> [] \<and> v = Str x}"
    using pn by (cases v) (auto simp: st4_def own_keys_reg_delete o3)
  define st5 where "st5 = reg_set st4 nb (pawn_id p) q"
  have sh5: "board_shape st5 nb"
    using sh4 by (simp add: st5_def)
  have pn4: "pawns nb < length (regs st4)"
    using sh4 by (simp add: board_shape_def)
  have g5: "grid_get st5 nb r c = grid_get st3 nb r c" for r c
    by (simp add: st5_def g4)
  have r5: "registered st5 nb k' =
            (if k' = pawn_id p then Some q
             else if k' = ''__proto__'' \<or> k' \<noteq> [] \<and> v = Str k' then None
             else registered st b k')" for k'
    using pn4 by (simp add: st5_def registered_reg_set r4)
  have o5: "own_keys st5 nb =
            (if pawn_id p = ''__proto__'' then {} else {pawn_id p}) \<union>
            (own_keys st b - {x. x \<noteq> [] \<and> v = Str x})"
    using pn4 by (simp add: st5_def own_keys_reg_set own_keys_reg_set_proto o4)
  define st6 where "st6 = cell_set st5 nb (row t) (col t) (Str (pawn_id p))"
  have s6: "grid_set st5 nb (row t) (col t) (Str (pawn_id p)) = (Inr (), st6)"
    using sh5 tv by (simp add: grid_set_valid v2 st6_def)
  have sh6: "board_shape st6 nb"
    unfolding st6_def using sh5 tv by (simp add: board_shape_cell_set v2)
  have g6: "grid_get st6 nb r c =
            (if r = row t \<and> c = col t then Inr (Str (pawn_id p))
             else if r = row (position p) \<and> c = col (position p) then Inr Null
             else grid_get st b r c)" for r c
    unfolding st6_def using sh5 tv by (simp add: grid_get_cell_set v2 g5 g3)
  have r6: "registered st6 nb k' =
            (if k' = pawn_id p then Some q
             else if k' = ''__proto__'' \<or>
                     k' \<noteq> [] \<and> grid_get st b (row t) (col t) = Inr (Str k') then None
             else registered st b k')" for k'
    by (simp add: st6_def r5 v)
  have o6: "own_keys st6 nb =
            (if pawn_id p = ''__proto__'' then {} else {pawn_id p}) \<union>
            (own_keys st b - {x. x \<noteq> [] \<and> grid_get st b (row t) (col t) = Inr (Str x)})"
    by (simp add: st6_def o5 v)
  have "movePawn st b k t = (Inr (nb, q), st6)"
    using reg g t cl s3 v3 s6
    by (simp add: movePawn_def list_ex_position Let_def st4_def st5_def q_def tq)
  with sh6 g6 r6 o6 show ?thesis
    unfolding nb_def q_def by blast
qed


section \<open>The consistency invariant\<close>

lemma board_consistent_view:
  "board_consistent st b \<longleftrightarrow> consistent (grid_get st b) (registered st b)"
  by (simp add: board_consistent_def consistent_def registered_iff)

lemma consistent_cell:
  "consistent G R \<Longrightarrow> G r c = Inr (Str k) \<Longrightarrow> \<exists>p. R k = Some p \<and> position p = \<lparr>row = r, col = c\<rparr>"
  by (simp add: consistent_def)

lemma consistent_pawn:
  "consistent G R \<Longrightarrow> R k = Some p \<Longrightarrow>
   G (row (position p)) (col (position p)) = Inr (Str (pawn_id p))"
  unfolding consistent_def by blast

lemma consistent_unique:
  "consistent G R \<Longrightarrow> R k = Some p \<Longrightarrow> R k' = Some p' \<Longrightarrow> position p = position p' \<Longrightarrow> k = k'"
  unfolding consistent_def by blast

lemma consistent_key_is_id:
  assumes "consistent G R" "R k = Some p"
  shows "pawn_id p = k"
proof -
  from consistent_pawn [OF assms]
  obtain p' where p': "R (pawn_id p) = Some p'"
    "position p' = \<lparr>row = row (position p), col = col (position p)\<rparr>"
    using consistent_cell [OF assms(1)] by blast
  then have "position p' = position p" by simp
  with consistent_unique [OF assms(1) p'(1) assms(2)] show ?thesis by simp
qed

lemma consistentI:
  assumes "\<And>r c k. G r c = Inr (Str k) \<Longrightarrow> \<exists>p. R k = Some p \<and> position p = \<lparr>row = r, col = c\<rparr>"
    and "\<And>k p. R k = Some p \<Longrightarrow> G (row (position p)) (col (position p)) = Inr (Str (pawn_id p))"
    and "\<And>k k' p p'. R k = Some p \<Longrightarrow> R k' = Some p' \<Longrightarrow> position p = position p' \<Longrightarrow> k = k'"
  shows "consistent G R"
  unfolding consistent_def using assms by blast


lemma consistent_place:
  assumes c: "consistent G R"
    and empty: "G (row (position p)) (col (position p)) = Inr Null"
    and fresh: "R (pawn_id p) = None"
  shows "consistent
           (\<lambda>r c. if r = row (position p) \<and> c = col (position p) then Inr (Str (pawn_id p)) else G r c)
           (R(pawn_id p \<mapsto> p))"
proof (rule consistentI)
  fix r c k
  assume a: "(if r = row (position p) \<and> c = col (position p) then Inr (Str (pawn_id p)) else G r c)
             = Inr (Str k)"
  show "\<exists>p'. (R(pawn_id p \<mapsto> p)) k = Some p' \<and> position p' = \<lparr>row = r, col = c\<rparr>"
  proof (cases "r = row (position p) \<and> c = col (position p)")
    case True
    with a have "k = pawn_id p" by simp
    with True show ?thesis by simp
  next
    case False
    with a have o: "G r c = Inr (Str k)" by simp
    from consistent_cell [OF c o] obtain p' where
      p': "R k = Some p'" "position p' = \<lparr>row = r, col = c\<rparr>" by blast
    with fresh have "k \<noteq> pawn_id p" by auto
    with p' show ?thesis by simp
  qed
next
  fix k q
  assume a: "(R(pawn_id p \<mapsto> p)) k = Some q"
  show "(if row (position q) = row (position p) \<and> col (position q) = col (position p)
         then Inr (Str (pawn_id p)) else G (row (position q)) (col (position q)))
        = Inr (Str (pawn_id q))"
  proof (cases "k = pawn_id p")
    case True
    with a have "q = p" by simp
    then show ?thesis by simp
  next
    case False
    with a have o: "R k = Some q" by simp
    from consistent_pawn [OF c o] empty show ?thesis by auto
  qed
next
  fix k k' q q'
  assume a: "(R(pawn_id p \<mapsto> p)) k = Some q" "(R(pawn_id p \<mapsto> p)) k' = Some q'"
    "position q = position q'"
  have old: "R j = Some x \<Longrightarrow> position x \<noteq> position p" for j x
    using consistent_pawn [OF c, of j x] empty by auto
  show "k = k'"
  proof (cases "k = pawn_id p"; cases "k' = pawn_id p")
    assume "k = pawn_id p" "k' = pawn_id p"
    then show ?thesis by simp
  next
    assume k: "k = pawn_id p" "k' \<noteq> pawn_id p"
    with a have "q = p" "R k' = Some q'" by simp_all
    with old a(3) show ?thesis by auto
  next
    assume k: "k \<noteq> pawn_id p" "k' = pawn_id p"
    with a have "q' = p" "R k = Some q" by simp_all
    with old a(3) show ?thesis by auto
  next
    assume k: "k \<noteq> pawn_id p" "k' \<noteq> pawn_id p"
    with a have "R k = Some q" "R k' = Some q'" by simp_all
    with consistent_unique [OF c] a(3) show ?thesis by blast
  qed
qed



lemma board_consistent_key_is_id:
  "board_consistent st b \<Longrightarrow> reg_get st b k = PawnObject p \<Longrightarrow> pawn_id p = k"
  unfolding board_consistent_view registered_iff [symmetric] by (rule consistent_key_is_id)

lemma board_consistent_pawn_valid:
  assumes "board_shape st b" "board_consistent st b" "reg_get st b k = PawnObject p"
  shows "isValidPosition b (row (position p)) (col (position p))"
proof -
  from assms(2,3) have "grid_get st b (row (position p)) (col (position p)) = Inr (Str (pawn_id p))"
    unfolding board_consistent_view registered_iff [symmetric] by (rule consistent_pawn)
  from grid_get_defined_valid [OF assms(1) this] show ?thesis by simp
qed


lemma placePawn_success_reads:
  assumes sh: "board_shape st b" and ok: "placePawn st b p = (Inr u, st')"
  shows "isValidPosition b (row (position p)) (col (position p))"
    and "grid_get st b (row (position p)) (col (position p)) = Inr Null"
    and "board_shape st' b"
    and "grid_get st' b r c =
           (if r = row (position p) \<and> c = col (position p) then Inr (Str (pawn_id p))
            else grid_get st b r c)"
    and "registered st' b k = (if k = pawn_id p then Some p else registered st b k)"
    and "length (regs st') = length (regs st)" and "length (rows st') = length (rows st)"
    and "reg_get st' b (pawn_id p) = PawnObject p"
    and "pawn_id p \<noteq> ''__proto__'' \<Longrightarrow>
         reg_get st' b k = (if k = pawn_id p then PawnObject p else reg_get st b k)"
    and "pawn_id p \<noteq> ''__proto__'' \<Longrightarrow> own_keys st' b = insert (pawn_id p) (own_keys st b)"
    and "plain_dictionary st' b \<longleftrightarrow> pawn_id p \<noteq> ''__proto__'' \<and> plain_dictionary st b"
proof -
  from ok show v: "isValidPosition b (row (position p)) (col (position p))"
    by (simp add: placePawn_shape [OF sh] split: if_splits)
  from ok show e: "grid_get st b (row (position p)) (col (position p)) = Inr Null"
    by (simp add: placePawn_shape [OF sh] split: if_splits)
  from ok v e have st': "st' = cell_set (reg_set st b (pawn_id p) p) b
                                 (row (position p)) (col (position p)) (Str (pawn_id p))"
    by (simp add: placePawn_shape [OF sh])
  have sh1: "board_shape (reg_set st b (pawn_id p) p) b" using sh by simp
  show "board_shape st' b"
    unfolding st' using sh1 v by (rule board_shape_cell_set)
  show "grid_get st' b r c =
           (if r = row (position p) \<and> c = col (position p) then Inr (Str (pawn_id p))
            else grid_get st b r c)"
    unfolding st' using sh1 v by (simp add: grid_get_cell_set)
  from sh have pn: "pawns b < length (regs st)" by (simp add: board_shape_def)
  then show "registered st' b k = (if k = pawn_id p then Some p else registered st b k)"
    unfolding st' by (simp add: registered_reg_set)
  show "length (regs st') = length (regs st)" "length (rows st') = length (rows st)"
    unfolding st' by simp_all
  from pn show "reg_get st' b (pawn_id p) = PawnObject p"
    unfolding st' by (simp add: reg_get_reg_set_same)
  from pn show "pawn_id p \<noteq> ''__proto__'' \<Longrightarrow>
         reg_get st' b k = (if k = pawn_id p then PawnObject p else reg_get st b k)"
    unfolding st' by (simp add: reg_get_reg_set)
  from pn show "pawn_id p \<noteq> ''__proto__'' \<Longrightarrow> own_keys st' b = insert (pawn_id p) (own_keys st b)"
    unfolding st' by (simp add: own_keys_reg_set)
  from pn show "plain_dictionary st' b \<longleftrightarrow> pawn_id p \<noteq> ''__proto__'' \<and> plain_dictionary st b"
    unfolding st' by (simp add: plain_dictionary_reg_set)
qed

lemma placePawn_preserves:
  assumes sh: "board_shape st b" and c: "board_consistent st b"
    and fresh: "registered st b (pawn_id p) = None"
    and run: "placePawn st b p = (res, st')"
  shows "board_shape st' b \<and> board_consistent st' b"
proof (cases res)
  case (Inl e)
  with run have "st' = st" by (auto dest: placePawn_failure_unchanged)
  with sh c show ?thesis by simp
next
  case (Inr u)
  with run have ok: "placePawn st b p = (Inr u, st')" by simp
  note f = placePawn_success_reads [OF sh ok]
  have G: "grid_get st' b =
           (\<lambda>r c. if r = row (position p) \<and> c = col (position p) then Inr (Str (pawn_id p))
                   else grid_get st b r c)"
    by (intro ext) (rule f(4))
  have R: "registered st' b = (registered st b)(pawn_id p \<mapsto> p)"
    by (intro ext) (simp add: f(5))
  from c have "consistent (grid_get st b) (registered st b)" by (simp add: board_consistent_view)
  from consistent_place [OF this f(2) fresh] f(3) show ?thesis
    by (simp add: board_consistent_view G R)
qed



lemma removePawn_present_reads:
  assumes sh: "board_shape st b" and p: "reg_get st b k = PawnObject p"
    and v: "isValidPosition b (row (position p)) (col (position p))"
  shows "\<exists>st'. removePawn st b k = (Inr (), st') \<and> board_shape st' b \<and>
           (\<forall>r c. grid_get st' b r c =
              (if r = row (position p) \<and> c = col (position p) then Inr Null else grid_get st b r c)) \<and>
           (\<forall>k'. registered st' b k' =
              (if k' = k \<and> k \<noteq> ''__proto__'' then None else registered st b k')) \<and>
           length (regs st') = length (regs st) \<and> length (rows st') = length (rows st) \<and>
           (\<forall>k'. k' \<noteq> k \<longrightarrow> reg_get st' b k' = reg_get st b k') \<and>
           own_keys st' b = own_keys st b - {k} \<and>
           plain_dictionary st' b = plain_dictionary st b"
proof -
  define st1 where "st1 = cell_set st b (row (position p)) (col (position p)) Null"
  have sh1: "board_shape st1 b" unfolding st1_def using sh v by (rule board_shape_cell_set)
  then have pn: "pawns b < length (regs st1)" by (simp add: board_shape_def)
  have "removePawn st b k = (Inr (), reg_delete st1 b k)"
    unfolding st1_def using sh p v by (rule removePawn_present)
  moreover have "board_shape (reg_delete st1 b k) b" using sh1 by simp
  moreover have "grid_get (reg_delete st1 b k) b r c =
              (if r = row (position p) \<and> c = col (position p) then Inr Null else grid_get st b r c)"
    for r c
    using sh v by (simp add: st1_def grid_get_cell_set)
  moreover have "registered (reg_delete st1 b k) b k' =
                   (if k' = k \<and> k \<noteq> ''__proto__'' then None else registered st b k')"
    for k'
    using pn by (simp add: registered_reg_delete) (simp add: st1_def)
  moreover have "length (regs (reg_delete st1 b k)) = length (regs st)"
    "length (rows (reg_delete st1 b k)) = length (rows st)"
    by (simp_all add: st1_def)
  moreover have "k' \<noteq> k \<Longrightarrow> reg_get (reg_delete st1 b k) b k' = reg_get st b k'" for k'
    using pn by (simp add: reg_get_reg_delete) (simp add: st1_def)
  moreover have "own_keys (reg_delete st1 b k) b = own_keys st b - {k}"
    using pn by (simp add: own_keys_reg_delete) (simp add: st1_def)
  moreover have "plain_dictionary (reg_delete st1 b k) b = plain_dictionary st b"
    using pn by (simp add: plain_dictionary_reg_delete) (simp add: st1_def)
  ultimately show ?thesis by blast
qed

lemma removePawn_unchanged:
  "\<forall>p. reg_get st b k \<noteq> PawnObject p \<Longrightarrow> snd (removePawn st b k) = st"
  by (cases "reg_get st b k") (simp_all add: removePawn_def)


lemma movePawn_Inr_legal:
  assumes "movePawn st b k t = (Inr x, st')"
  shows "\<exists>p ms. reg_get st b k = PawnObject p \<and> getPawnAllowedMoves st p b = (Inr ms, st) \<and>
           t \<in> set ms"
proof (cases "\<exists>p. reg_get st b k = PawnObject p")
  case False
  with assms show ?thesis
    by (cases "reg_get st b k") (auto simp: movePawn_def split: if_splits)
next
  case True
  then obtain p where Some: "reg_get st b k = PawnObject p" ..
  obtain res where g: "getPawnAllowedMoves st p b = (res, st)"
    by (metis getPawnAllowedMoves_store prod.collapse)
  show ?thesis
  proof (cases res)
    case (Inl e)
    with assms Some g show ?thesis by (simp add: movePawn_def)
  next
    case (Inr ms)
    with assms Some g have "t \<in> set ms"
      by (auto simp: movePawn_def list_ex_position split: if_splits)
    with Some g Inr show ?thesis by simp
  qed
qed



section \<open>Registered pawns stand on the board\<close>

lemma consistent_pawns_on_board:
  "board_shape st b \<Longrightarrow> board_consistent st b \<Longrightarrow> pawns_on_board st b"
  unfolding pawns_on_board_def
  using board_consistent_key_is_id board_consistent_pawn_valid by blast

lemma pawns_on_boardD:
  "pawns_on_board st b \<Longrightarrow> reg_get st b k = PawnObject p \<Longrightarrow>
   pawn_id p = k \<and> isValidPosition b (row (position p)) (col (position p))"
  by (simp add: pawns_on_board_def)

lemma pawns_on_board_registered:
  "pawns_on_board st b \<longleftrightarrow>
     (\<forall>k p. registered st b k = Some p \<longrightarrow>
        pawn_id p = k \<and> isValidPosition b (row (position p)) (col (position p)))"
  by (simp add: pawns_on_board_def registered_iff)

text \<open>
  The operations keep the shape of a board and keep its registered pawns on the board,
  whatever id the placed pawn has.
\<close>

lemma placePawn_keeps_pawns_on_board:
  assumes sh: "board_shape st b" and pb: "pawns_on_board st b"
    and run: "placePawn st b p = (res, st')"
  shows "board_shape st' b \<and> pawns_on_board st' b"
proof (cases res)
  case (Inl e)
  with run have "st' = st" by (auto dest: placePawn_failure_unchanged)
  with sh pb show ?thesis by simp
next
  case (Inr u)
  with run have ok: "placePawn st b p = (Inr u, st')" by simp
  note f = placePawn_success_reads [OF sh ok]
  from pb f(1) have "pawns_on_board st' b"
    by (auto simp: pawns_on_board_registered f(5))
  with f(3) show ?thesis by simp
qed

lemma addPawn_keeps_pawns_on_board:
  assumes sh: "board_shape st b" and pb: "pawns_on_board st b"
    and run: "addPawn st b colr r c now rnd = (res, st')"
  shows "board_shape st' b \<and> pawns_on_board st' b"
proof (cases res)
  case (Inl e)
  with run have "st' = st" by (auto dest: addPawn_failure_unchanged)
  with sh pb show ?thesis by simp
next
  case (Inr q)
  with run have "placePawn st b q = (Inr (), st')" by (auto dest: addPawn_success)
  with sh pb show ?thesis by (rule placePawn_keeps_pawns_on_board)
qed

lemma removePawn_keeps_pawns_on_board:
  assumes sh: "board_shape st b" and pb: "pawns_on_board st b"
    and run: "removePawn st b k = (res, st')"
  shows "board_shape st' b \<and> pawns_on_board st' b"
proof (cases "\<exists>p. reg_get st b k = PawnObject p")
  case False
  with run removePawn_unchanged [of st b k] have "st' = st" by simp
  with sh pb show ?thesis by simp
next
  case True
  then obtain p where Some: "reg_get st b k = PawnObject p" ..
  from pawns_on_boardD [OF pb Some]
  have v: "isValidPosition b (row (position p)) (col (position p))" by simp
  from removePawn_present_reads [OF sh Some v] run
  have sh': "board_shape st' b"
    and R: "\<forall>k'. registered st' b k' =
              (if k' = k \<and> k \<noteq> ''__proto__'' then None else registered st b k')"
    by auto
  from pb R have "pawns_on_board st' b"
    by (auto simp: pawns_on_board_registered split: if_splits)
  with sh' show ?thesis by simp
qed

lemma movePawn_keeps_pawns_on_board:
  assumes sh: "board_shape st b" and pb: "pawns_on_board st b"
    and run: "movePawn st b k t = (Inr (nb, q), st')"
  shows "board_shape st' nb \<and> pawns_on_board st' nb"
proof -
  from movePawn_Inr_legal [OF run] obtain p ms where
    p: "reg_get st b k = PawnObject p" and g: "getPawnAllowedMoves st p b = (Inr ms, st)"
    and t: "t \<in> set ms" by blast
  from pawns_on_boardD [OF pb p]
  have v: "isValidPosition b (row (position p)) (col (position p))" by simp
  from movePawn_success [OF sh p v g t] run
  have nb: "nb = fst (cloneBoard st b)" and sh': "board_shape st' nb"
    and R: "\<forall>k'. registered st' nb k' =
             (if k' = pawn_id p
              then Some \<lparr>pawn_id = pawn_id p, color = color p, position = t, hasMoved = True\<rparr>
              else if k' = ''__proto__'' \<or>
                      k' \<noteq> [] \<and> grid_get st b (row t) (col t) = Inr (Str k') then None
              else registered st b k')"
    by auto
  from legal_target [OF g t] have tv: "isValidPosition b (row t) (col t)" by simp
  have vv: "isValidPosition nb r c = isValidPosition b r c" for r c
    by (simp add: nb isValidPosition_cloneBoard)
  from pb tv have "pawns_on_board st' nb"
    by (auto simp: pawns_on_board_registered R vv split: if_splits)
  with sh' show ?thesis by simp
qed

section \<open>The example board\<close>

lemma board_consistent_empty:
  assumes sh: "board_shape st b"
    and cells: "\<forall>a \<in> set (grid b). \<forall>x \<in> set (rows st ! a). x = Null"
    and reg: "regs st ! pawns b = \<lparr>own = Map.empty, proto = None\<rparr>"
  shows "board_consistent st b"
proof -
  have "grid_get st b r c \<noteq> Inr (Str k)" for r c k
  proof
    assume a: "grid_get st b r c = Inr (Str k)"
    from grid_get_defined_valid [OF sh a] have v: "isValidPosition b r c" by simp
    then have "nat r < length (grid b)" "nat c < length (rows st ! (grid b ! nat r))"
      using sh by (auto simp: isValidPosition_def board_shape_def)
    then have "rows st ! (grid b ! nat r) ! nat c = Null"
      using cells by (meson nth_mem)
    with a grid_get_valid [OF sh v] show False by simp
  qed
  moreover have "reg_get st b k \<noteq> PawnObject p" for k p
    by (simp add: reg_get_def dict_get_def reg)
  ultimately show ?thesis by (simp add: board_consistent_def)
qed

lemma black2_fields:
  "pawn_id black2 = ''B2''" "color black2 = ''black''"
  "position black2 = \<lparr>row = 1, col = 0\<rparr>" "hasMoved black2 = False"
  by (simp_all add: black2_def)

lemma white3_fields:
  "pawn_id white3 = ''W3''" "color white3 = ''white''"
  "position white3 = \<lparr>row = 1, col = 2\<rparr>" "hasMoved white3 = False"
  by (simp_all add: white3_def)

lemma board_consistent_store3: "board_consistent store3 board3"
proof -
  have sh0: "board_shape empty3 board3"
    by (simp add: board_shape_def empty3_def board3_def)
  have c0: "board_consistent empty3 board3"
    using sh0 by (rule board_consistent_empty) (simp_all add: empty3_def board3_def)
  have r0: "registered empty3 board3 k = None" for k
    by (simp add: registered_None_iff reg_get_def dict_get_def empty3_def board3_def)
  note s1 = placePawn_success_reads [OF sh0 store3_built(2)]
  have i1: "board_shape (snd (placePawn empty3 board3 white1)) board3 \<and>
            board_consistent (snd (placePawn empty3 board3 white1)) board3"
    using sh0 c0 r0 store3_built(2) by (rule placePawn_preserves)
  have f2: "registered (snd (placePawn empty3 board3 white1)) board3 (pawn_id black2) = None"
    by (simp add: s1(5) r0 white1_fields black2_fields)
  note s2 = placePawn_success_reads [OF conjunct1 [OF i1] store3_built(3)]
  have i2: "board_shape (snd (placePawn (snd (placePawn empty3 board3 white1)) board3 black2)) board3 \<and>
            board_consistent (snd (placePawn (snd (placePawn empty3 board3 white1)) board3 black2)) board3"
    using conjunct1 [OF i1] conjunct2 [OF i1] f2 store3_built(3) by (rule placePawn_preserves)
  have f3: "registered (snd (placePawn (snd (placePawn empty3 board3 white1)) board3 black2)) board3
              (pawn_id white3) = None"
    by (simp add: s2(5) s1(5) r0 white1_fields black2_fields white3_fields)
  from placePawn_preserves [OF conjunct1 [OF i2] conjunct2 [OF i2] f3 store3_built(4)]
  show ?thesis by simp
qed

lemma pawns_on_board_store3: "pawns_on_board store3 board3"
  using board_shape_store3 board_consistent_store3 by (rule consistent_pawns_on_board)

lemma reads_store3:
  "reg_get store3 board3 ''W1'' = PawnObject white1"
  "reg_get store3 board3 ''B2'' = PawnObject black2"
  "reg_get store3 board3 ''W3'' = PawnObject white3"
  "reg_get store3 board3 ''W4'' = Absent"
  "grid_get store3 board3 1 0 = Inr (Str ''B2'')"
  "grid_get store3 board3 1 2 = Inr (Str ''W3'')"
  "grid_get store3 board3 2 2 = Inr Null"
  "reg_get store3 board3 ''toString'' = Builtin"
  "reg_get store3 board3 ''constructor'' = Builtin"
  "reg_get store3 board3 ''__proto__'' = Builtin"
  by (simp_all add: reg_get_def dict_get_def inherited_def objectPrototypeNames_def grid_get_def
      store3_def board3_def)

lemma own_keys_store3: "own_keys store3 board3 = {''W1'', ''B2'', ''W3''}"
  by (auto simp: own_keys_def store3_def board3_def split: if_splits)


section \<open>Failing calls, and what addPawn adds\<close>

text \<open>
  The id that \<open>addPawn\<close> generates is never \<open>__proto__\<close>: its second character is an
  underscore and its third the first character of a decimal numeral.
\<close>

lemma natToString_head:
  "natToString n \<noteq> [] \<and> hd (natToString n) \<in> set ''0123456789''"
proof (induction n rule: natToString.induct)
  case (1 n)
  show ?case
  proof (cases "n < 10")
    case True
    then have "''0123456789'' ! n \<in> set ''0123456789''"
      by (intro nth_mem) simp
    with True show ?thesis
      by (simp add: natToString.simps [of n])
  next
    case False
    with 1 have "natToString (n div 10) \<noteq> [] \<and> hd (natToString (n div 10)) \<in> set ''0123456789''"
      by simp
    with False show ?thesis
      by (simp add: natToString.simps [of n])
  qed
qed

lemma numToString_head: "numToString i \<noteq> [] \<and> hd (numToString i) \<noteq> CHR ''p''"
  using natToString_head [of "nat i"]
  by (auto simp: numToString_def)

lemma addPawn_id:
  assumes "addPawn st b colr r c now rnd = (Inr q, st')"
  shows "pawn_id q \<noteq> ''__proto__''"
proof -
  from assms obtain ch where "pawn_id q = toUpperCase ch # CHR ''_'' # numToString now @ ''_'' @ drop 2 rnd"
    by (auto simp: addPawn_def Let_def split: if_splits sum.splits list.splits prod.splits)
  moreover obtain d ds where "numToString now = d # ds" "d \<noteq> CHR ''p''"
    using numToString_head [of now] by (cases "numToString now") auto
  ultimately show ?thesis by auto
qed

text \<open>
  C7. A call of \<open>placePawn\<close> or of \<open>addPawn\<close> that throws leaves the store as it was,
  whatever it throws. A call of \<open>addPawn\<close> that returns, on a board of the data model's
  shape, returns a pawn with \<open>hasMoved = false\<close> for the requested cell, which was
  empty, makes the pawn's id an own property of the registry that reads the pawn and
  writes the id into the cell; no other name reads differently and no other cell
  changes. When the generated id was not an own property of the registry before the
  call, the registry has exactly one own property more after it.
\<close>

theorem failures_leave_store_addPawn_adds_one:
  "(placePawn st b p = (Inl e, st1) \<longrightarrow> st1 = st) \<and>
   (addPawn st b colr r c now rnd = (Inl e', st2) \<longrightarrow> st2 = st) \<and>
   (board_shape st b \<and> addPawn st b colr' r' c' now' rnd' = (Inr q, st3) \<longrightarrow>
      hasMoved q = False \<and> color q = colr' \<and> position q = \<lparr>row = r', col = c'\<rparr> \<and>
      grid_get st b r' c' = Inr Null \<and>
      (\<forall>k. reg_get st3 b k = (if k = pawn_id q then PawnObject q else reg_get st b k)) \<and>
      (\<forall>i j. grid_get st3 b i j =
         (if i = r' \<and> j = c' then Inr (Str (pawn_id q)) else grid_get st b i j)) \<and>
      own_keys st3 b = insert (pawn_id q) (own_keys st b) \<and>
      (pawn_id q \<notin> own_keys st b \<and> finite (own_keys st b) \<longrightarrow>
         card (own_keys st3 b) = card (own_keys st b) + 1))"
proof (intro conjI impI)
  assume "placePawn st b p = (Inl e, st1)"
  then show "st1 = st" by (rule placePawn_failure_unchanged)
next
  assume "addPawn st b colr r c now rnd = (Inl e', st2)"
  then show "st2 = st" by (rule addPawn_failure_unchanged)
next
  assume a: "board_shape st b \<and> addPawn st b colr' r' c' now' rnd' = (Inr q, st3)"
  then have sh: "board_shape st b" by simp
  note s = addPawn_success [OF conjunct2 [OF a]]
  note id = addPawn_id [OF conjunct2 [OF a]]
  from s have pl: "placePawn st b q = (Inr (), st3)" by simp
  note rd = placePawn_success_reads [OF sh pl]
  from s show "hasMoved q = False" "color q = colr'" "position q = \<lparr>row = r', col = c'\<rparr>"
    "grid_get st b r' c' = Inr Null"
    by simp_all
  show "\<forall>k. reg_get st3 b k = (if k = pawn_id q then PawnObject q else reg_get st b k)"
    by (simp add: rd(9) [OF id])
  from s show "\<forall>i j. grid_get st3 b i j =
         (if i = r' \<and> j = c' then Inr (Str (pawn_id q)) else grid_get st b i j)"
    by (simp add: rd(4))
  show D: "own_keys st3 b = insert (pawn_id q) (own_keys st b)"
    by (rule rd(10) [OF id])
  assume "pawn_id q \<notin> own_keys st b \<and> finite (own_keys st b)"
  with D show "card (own_keys st3 b) = card (own_keys st b) + 1" by simp
qed

lemma addPawn_store3:
  "addPawn store3 board3 ''black'' 2 2 1700000000000 ''0.8'' =
     (Inr added4, snd (addPawn store3 board3 ''black'' 2 2 1700000000000 ''0.8''))"
  "addPawn store3 board3 ''black'' 5 5 1700000000000 ''0.8'' = (Inl OutOfBounds, store3)"
  "placePawn store3 board3 anonymous = (Inl OccupiedSquare, store3)"
  by (simp_all add: addPawn_def placePawn_def isValidPosition_def grid_get_def grid_set_def
      toUpperCase_def numToString_def natToString.simps Let_def
      store3_def board3_def added4_def anonymous_def)

theorem failures_leave_store_addPawn_adds_one_witness:
  "placePawn store3 board3 anonymous = (Inl OccupiedSquare, store3) \<and>
   addPawn store3 board3 ''black'' 5 5 1700000000000 ''0.8'' = (Inl OutOfBounds, store3) \<and>
   board_shape store3 board3 \<and>
   addPawn store3 board3 ''black'' 2 2 1700000000000 ''0.8'' =
     (Inr added4, snd (addPawn store3 board3 ''black'' 2 2 1700000000000 ''0.8'')) \<and>
   pawn_id added4 \<notin> own_keys store3 board3 \<and> finite (own_keys store3 board3) \<and>
   hasMoved added4 = False \<and>
   reg_get (snd (addPawn store3 board3 ''black'' 2 2 1700000000000 ''0.8'')) board3
     ''B_1700000000000_8'' = PawnObject added4 \<and>
   own_keys (snd (addPawn store3 board3 ''black'' 2 2 1700000000000 ''0.8'')) board3 =
     {''B_1700000000000_8'', ''W1'', ''B2'', ''W3''} \<and>
   card (own_keys (snd (addPawn store3 board3 ''black'' 2 2 1700000000000 ''0.8'')) board3) = 4"
proof -
  have id: "pawn_id added4 = ''B_1700000000000_8''" by (simp add: added4_def)
  from failures_leave_store_addPawn_adds_one
    [where st = store3 and b = board3 and colr' = "''black''" and r' = 2 and c' = 2 and now' = 1700000000000
       and rnd' = "''0.8''" and q = added4
       and ?st3.0 = "snd (addPawn store3 board3 ''black'' 2 2 1700000000000 ''0.8'')"
       and p = anonymous and e = OccupiedSquare and ?st1.0 = store3
       and colr = "''black''" and r = 5 and c = 5 and now = 1700000000000 and rnd = "''0.8''"
       and e' = OutOfBounds and ?st2.0 = store3]
  show ?thesis
    using board_shape_store3 addPawn_store3
    by (simp add: own_keys_store3 id)
qed

lemma addPawn_twice:
  "addPawn empty3 board3 ''black'' 0 0 1700000000000 ''0.8'' = (Inr added_first, store_first)"
  "addPawn store_first board3 ''black'' 1 1 1700000000000 ''0.8'' = (Inr added_second, store_second)"
  by (simp_all add: addPawn_def placePawn_def isValidPosition_def grid_get_def grid_set_def
      cell_set_def array_set_def reg_set_def dict_set_def
      toUpperCase_def numToString_def natToString.simps Let_def
      empty3_def board3_def added_first_def added_second_def store_first_def store_second_def)

text \<open>
  A call of \<open>addPawn\<close> that returns need not add a pawn to the registry: two calls under
  the same clock value and the same random number generate the same id, and the second
  call, for another cell, overwrites the registry entry of the first. The registry holds
  one pawn before the second call and one after it, while two cells hold the id.
\<close>

theorem addPawn_same_id_counterexample:
  "addPawn empty3 board3 ''black'' 0 0 1700000000000 ''0.8'' = (Inr added_first, store_first) \<and>
   addPawn store_first board3 ''black'' 1 1 1700000000000 ''0.8'' = (Inr added_second, store_second) \<and>
   own_keys store_first board3 = {''B_1700000000000_8''} \<and>
   own_keys store_second board3 = {''B_1700000000000_8''} \<and>
   card (own_keys store_second board3) = card (own_keys store_first board3) \<and>
   grid_get store_second board3 0 0 = Inr (Str ''B_1700000000000_8'') \<and>
   grid_get store_second board3 1 1 = Inr (Str ''B_1700000000000_8'')"
proof -
  have d: "own_keys store_first board3 = {''B_1700000000000_8''}"
    "own_keys store_second board3 = {''B_1700000000000_8''}"
    by (simp_all add: own_keys_def store_first_def store_second_def board3_def)
  have "grid_get store_second board3 0 0 = Inr (Str ''B_1700000000000_8'')"
    "grid_get store_second board3 1 1 = Inr (Str ''B_1700000000000_8'')"
    by (simp_all add: grid_get_def store_second_def board3_def)
  with addPawn_twice show ?thesis by (simp add: d)
qed

section \<open>Removing a pawn\<close>











section \<open>How movePawn fails\<close>








lemma movePawn_illegal:
  "reg_get st b k = PawnObject p \<Longrightarrow> getPawnAllowedMoves st p b = (Inr ms, st) \<Longrightarrow> t \<notin> set ms \<Longrightarrow>
   movePawn st b k t = (Inl IllegalMove, st)"
  by (simp add: movePawn_def list_ex_position)







section \<open>Moves and captures\<close>

lemma move_white1_store3:
  "movePawn store3 board3 ''W1'' \<lparr>row = 1, col = 0\<rparr> = (Inr (board3_clone, white1_moved), store3_moved)"
proof -
  have r: "reg_get store3 board3 ''W1'' = PawnObject white1" by (rule reads_store3)
  show ?thesis
    unfolding movePawn_def r truthy_property.simps not_True_eq_False if_False property.case
      moves_white1_store3 prod.case sum.case
    by (simp add: cloneBoard_def grid_set_def grid_get_def cell_set_def array_set_def
        reg_set_def reg_delete_def dict_set_def dict_delete_def Let_def
        store3_def board3_def white1_def board3_clone_def white1_moved_def store3_moved_def)
qed

text \<open>
  C3. On a board of the data model's shape whose registered pawns stand on the board,
  for a registered pawn and a target among its allowed moves, \<open>movePawn\<close> returns a new
  board and the updated pawn. Every object of the store before the call is in the store
  after it with the contents it had, so the input board reads as before, cell by cell and
  name by name. On the new board, which has the dimensions of the old one, the registry
  reads under the id the pawn with its position set to the target and \<open>hasMoved = true\<close>,
  the source cell reads \<open>null\<close> and the target cell holds the id.
\<close>

theorem movePawn_copies_then_moves:
  assumes "board_shape st b" and "pawns_on_board st b" and "reg_get st b k = PawnObject p"
    and "getPawnAllowedMoves st p b = (Inr ms, st)" and "t \<in> set ms"
  shows "\<exists>nb q st'. movePawn st b k t = (Inr (nb, q), st') \<and>
           store_preserved st st' \<and> board_shape st' b \<and>
           (\<forall>r c. grid_get st' b r c = grid_get st b r c) \<and>
           (\<forall>j. reg_get st' b j = reg_get st b j) \<and>
           q = \<lparr>pawn_id = k, color = color p, position = t, hasMoved = True\<rparr> \<and>
           width nb = width b \<and> height nb = height b \<and>
           board_shape st' nb \<and> pawns_on_board st' nb \<and>
           reg_get st' nb k = PawnObject q \<and>
           grid_get st' nb (row (position p)) (col (position p)) = Inr Null \<and>
           grid_get st' nb (row t) (col t) = Inr (Str k)"
proof -
  from pawns_on_boardD [OF assms(2,3)]
  have v: "isValidPosition b (row (position p)) (col (position p))" and id: "pawn_id p = k"
    by simp_all
  from legal_target [OF assms(4,5)] have tr: "row t \<noteq> row (position p)" by simp
  from movePawn_success [OF assms(1) assms(3) v assms(4,5)] obtain st' where
    run: "movePawn st b k t =
            (Inr (fst (cloneBoard st b),
                  \<lparr>pawn_id = pawn_id p, color = color p, position = t, hasMoved = True\<rparr>), st')"
    and G: "\<forall>r c. grid_get st' (fst (cloneBoard st b)) r c =
             (if r = row t \<and> c = col t then Inr (Str (pawn_id p))
              else if r = row (position p) \<and> c = col (position p) then Inr Null
              else grid_get st b r c)"
    and R: "\<forall>k'. registered st' (fst (cloneBoard st b)) k' =
             (if k' = pawn_id p
              then Some \<lparr>pawn_id = pawn_id p, color = color p, position = t, hasMoved = True\<rparr>
              else if k' = ''__proto__'' \<or>
                      k' \<noteq> [] \<and> grid_get st b (row t) (col t) = Inr (Str k') then None
              else registered st b k')"
    by blast
  have pr: "store_preserved st st'"
    using movePawn_preserved [of st b k t] run by simp
  note old = store_preserved_reads [OF pr assms(1)]
  note new = movePawn_keeps_pawns_on_board [OF assms(1,2) run]
  from R have "reg_get st' (fst (cloneBoard st b)) k =
                 PawnObject \<lparr>pawn_id = k, color = color p, position = t, hasMoved = True\<rparr>"
    by (simp add: registered_iff [symmetric] id)
  with run pr old new G tr id show ?thesis
    by (simp add: cloneBoard_fresh)
qed

theorem movePawn_copies_then_moves_witness:
  "board_shape store3 board3 \<and> pawns_on_board store3 board3 \<and>
   reg_get store3 board3 ''W1'' = PawnObject white1 \<and>
   getPawnAllowedMoves store3 white1 board3 =
     (Inr [\<lparr>row = 1, col = 1\<rparr>, \<lparr>row = 2, col = 1\<rparr>, \<lparr>row = 1, col = 0\<rparr>], store3) \<and>
   \<lparr>row = 1, col = 0\<rparr> \<in> set [\<lparr>row = 1, col = 1\<rparr>, \<lparr>row = 2, col = 1\<rparr>, \<lparr>row = 1, col = 0\<rparr>] \<and>
   movePawn store3 board3 ''W1'' \<lparr>row = 1, col = 0\<rparr> =
     (Inr (board3_clone, white1_moved), store3_moved) \<and>
   store_preserved store3 store3_moved \<and>
   reg_get store3_moved board3_clone ''W1'' = PawnObject white1_moved \<and>
   grid_get store3_moved board3_clone 0 1 = Inr Null \<and>
   grid_get store3_moved board3_clone 1 0 = Inr (Str ''W1'')"
  using movePawn_copies_then_moves [OF board_shape_store3 pawns_on_board_store3 reads_store3(1)
      moves_white1_store3, of "\<lparr>row = 1, col = 0\<rparr>"]
    board_shape_store3 pawns_on_board_store3 reads_store3(1) moves_white1_store3
  by (auto simp: move_white1_store3 white1_fields)

text \<open>
  C4. On a board of the data model's shape whose registered pawns stand on the board, let
  the target cell hold an id under which the registry reads a pawn. If that pawn's colour
  differs from the moving pawn's and \<open>movePawn\<close> returns, then on the returned board the
  registry reads no pawn under that id, the id is no own property of it, and the target
  cell holds the id of the moving pawn. If the colours are equal, the target is not among
  the allowed moves and \<open>movePawn\<close> throws "Illegal move".
\<close>

theorem capture_removes_opponent:
  assumes "board_shape st b" and "pawns_on_board st b" and "reg_get st b k = PawnObject p"
    and "grid_get st b (row t) (col t) = Inr (Str x)" and "reg_get st b x = PawnObject opp"
  shows "(color opp \<noteq> color p \<and> movePawn st b k t = (Inr (nb, q), st') \<longrightarrow>
            registered st' nb x = None \<and> x \<notin> own_keys st' nb \<and>
            grid_get st' nb (row t) (col t) = Inr (Str k)) \<and>
         (color opp = color p \<longrightarrow>
            (\<exists>ms. getPawnAllowedMoves st p b = (Inr ms, st) \<and> t \<notin> set ms) \<and>
            movePawn st b k t = (Inl IllegalMove, st))"
proof (intro conjI impI)
  assume a: "color opp \<noteq> color p \<and> movePawn st b k t = (Inr (nb, q), st')"
  then have run: "movePawn st b k t = (Inr (nb, q), st')" by simp
  from movePawn_Inr_legal [OF run] assms(3) obtain ms where
    g: "getPawnAllowedMoves st p b = (Inr ms, st)" and t: "t \<in> set ms" by auto
  from pawns_on_boardD [OF assms(2,3)]
  have v: "isValidPosition b (row (position p)) (col (position p))" and id: "pawn_id p = k"
    by simp_all
  from a assms(3,5) have xk: "x \<noteq> k" by auto
  from legal_target [OF g t] assms(4) have "capturable st b p (row t) (col t)"
    by (simp add: cell_empty_def)
  from capturable_pawn [OF this assms(4,5)] have xe: "x \<noteq> []" by simp
  from movePawn_success [OF assms(1) assms(3) v g t] run
  have G: "\<forall>r c. grid_get st' nb r c =
             (if r = row t \<and> c = col t then Inr (Str (pawn_id p))
              else if r = row (position p) \<and> c = col (position p) then Inr Null
              else grid_get st b r c)"
    and R: "\<forall>k'. registered st' nb k' =
             (if k' = pawn_id p
              then Some \<lparr>pawn_id = pawn_id p, color = color p, position = t, hasMoved = True\<rparr>
              else if k' = ''__proto__'' \<or>
                      k' \<noteq> [] \<and> grid_get st b (row t) (col t) = Inr (Str k') then None
              else registered st b k')"
    and O: "own_keys st' nb =
            (if pawn_id p = ''__proto__'' then {} else {pawn_id p}) \<union>
            (own_keys st b - {x. x \<noteq> [] \<and> grid_get st b (row t) (col t) = Inr (Str x)})"
    by auto
  from R xk xe assms(4) show "registered st' nb x = None" by (simp add: id)
  from O xk xe assms(4) show "x \<notin> own_keys st' nb" by (simp add: id)
  from G show "grid_get st' nb (row t) (col t) = Inr (Str k)" by (simp add: id)
next
  assume same: "color opp = color p"
  obtain ms where g: "getPawnAllowedMoves st p b = (Inr ms, st)"
    using assms(1) by (simp add: getPawnAllowedMoves_prescribed)
  have t: "t \<notin> set ms"
  proof
    assume "t \<in> set ms"
    from legal_target [OF g this] assms(4) have "capturable st b p (row t) (col t)"
      by (simp add: cell_empty_def)
    from capturable_pawn [OF this assms(4,5)] same show False by simp
  qed
  with g show "\<exists>ms. getPawnAllowedMoves st p b = (Inr ms, st) \<and> t \<notin> set ms" by blast
  from assms(3) g t show "movePawn st b k t = (Inl IllegalMove, st)" by (rule movePawn_illegal)
qed

theorem capture_removes_opponent_witness:
  "board_shape store3 board3 \<and> pawns_on_board store3 board3 \<and>
   reg_get store3 board3 ''W1'' = PawnObject white1 \<and>
   grid_get store3 board3 1 0 = Inr (Str ''B2'') \<and> reg_get store3 board3 ''B2'' = PawnObject black2 \<and>
   color black2 \<noteq> color white1 \<and>
   movePawn store3 board3 ''W1'' \<lparr>row = 1, col = 0\<rparr> =
     (Inr (board3_clone, white1_moved), store3_moved) \<and>
   registered store3_moved board3_clone ''B2'' = None \<and>
   ''B2'' \<notin> own_keys store3_moved board3_clone \<and>
   grid_get store3_moved board3_clone 1 0 = Inr (Str ''W1'') \<and>
   grid_get store3 board3 1 2 = Inr (Str ''W3'') \<and> reg_get store3 board3 ''W3'' = PawnObject white3 \<and>
   color white3 = color white1 \<and>
   movePawn store3 board3 ''W1'' \<lparr>row = 1, col = 2\<rparr> = (Inl IllegalMove, store3)"
  using capture_removes_opponent [OF board_shape_store3 pawns_on_board_store3 reads_store3(1),
      of "\<lparr>row = 1, col = 0\<rparr>" "''B2''" black2 board3_clone white1_moved store3_moved]
    capture_removes_opponent [OF board_shape_store3 pawns_on_board_store3 reads_store3(1),
      of "\<lparr>row = 1, col = 2\<rparr>" "''W3''" white3]
    board_shape_store3 pawns_on_board_store3 reads_store3 move_white1_store3
  by (simp add: white1_fields black2_fields white3_fields)

section \<open>Diagonal destinations\<close>








section \<open>The operations and the invariant\<close>







section \<open>The boards that the constructors return\<close>

lemma replicate_8: "replicate 8 x = [x, x, x, x, x, x, x, x]"
  by (simp add: numeral_eq_Suc)

lemma createInitialBoard_value:
  "createInitialBoard st =
     (Inr \<lparr>width = 8, height = 8, pawns = length (regs st),
           grid = [length (rows st), Suc (length (rows st)), Suc (Suc (length (rows st))),
                   Suc (Suc (Suc (length (rows st)))), Suc (Suc (Suc (Suc (length (rows st))))),
                   Suc (Suc (Suc (Suc (Suc (length (rows st)))))),
                   Suc (Suc (Suc (Suc (Suc (Suc (length (rows st))))))),
                   Suc (Suc (Suc (Suc (Suc (Suc (Suc (length (rows st))))))))]\<rparr>,
      st\<lparr>regs := regs st @ [\<lparr>own = spec_initialRegistry, proto = None\<rparr>],
         rows := rows st @ spec_initialRows\<rparr>)"
  by (simp add: createInitialBoard_def createEmptyBoard_def createEmptyGrid_def
      createEmptyGridLoop.simps whiteLoop.simps blackLoop.simps placePawn_def grid_get_def
      grid_set_def cell_set_def array_set_def reg_set_def dict_set_def nth_append
      list_update_append
      replicate_8 numToString_def
      natToString.simps spec_initialRegistry_def spec_initialPawn_def spec_initialRows_def
      spec_initialCell_def upto_rec1)


lemma appended_board:
  fixes st :: store and M R n w
  defines "B \<equiv> \<lparr>width = w, height = int n, pawns = length (regs st),
                   grid = map (\<lambda>i. length (rows st) + i) [0..<n]\<rparr>"
    and "S \<equiv> st\<lparr>regs := regs st @ [M], rows := rows st @ R\<rparr>"
  assumes len: "length R = n" and wid: "\<forall>x \<in> set R. length x = nat w" and w: "0 \<le> w"
  shows "board_shape S B" and "store_preserved st S" and "regs S ! pawns B = M"
    and "isValidPosition B r c \<Longrightarrow> grid_get S B r c = Inr (R ! nat r ! nat c)"
proof -
  show sh: "board_shape S B"
    using len wid w by (auto simp: board_shape_def B_def S_def distinct_map inj_on_def nth_append)
  show "store_preserved st S"
    by (simp add: store_preserved_def S_def)
  show "regs S ! pawns B = M"
    by (simp add: B_def S_def)
  assume v: "isValidPosition B r c"
  then have "nat r < n" by (auto simp: isValidPosition_def B_def nat_less_iff)
  then show "grid_get S B r c = Inr (R ! nat r ! nat c)"
    using grid_get_valid [OF sh v] by (simp add: B_def S_def nth_append)
qed

lemma createEmptyGridLoop_value:
  "0 \<le> w \<Longrightarrow> w < 2 ^ 32 \<Longrightarrow>
   createEmptyGridLoop st w h i g =
     (Inr (g @ map (\<lambda>j. length (rows st) + j) [0..<nat (h - i)]),
      st\<lparr>rows := rows st @ replicate (nat (h - i)) (replicate (nat w) Null)\<rparr>)"
proof (induction st w h i g rule: createEmptyGridLoop.induct)
  case (1 st w h i g)
  show ?case
  proof (cases "i < h")
    case False
    then show ?thesis by (simp add: createEmptyGridLoop.simps [of st w h i g])
  next
    case True
    then have n: "nat (h - i) = Suc (nat (h - (i + 1)))" by simp
    have w: "\<not> (w < 0 \<or> 2 ^ 32 \<le> w)" using "1.prems" by simp
    from "1.IH" [OF True w "1.prems"] True w show ?thesis
      by (simp add: createEmptyGridLoop.simps [of st w h i g] n upt_conv_Cons
          map_Suc_upt [symmetric] replicate_append_same del: upt_Suc)
  qed
qed

text \<open>
  \<open>createEmptyBoard(w, h)\<close> with \<open>w\<close> an array length and \<open>h\<close> not negative returns a
  well-formed board with an empty registry and every cell \<open>null\<close>.
\<close>

lemma createEmptyBoard_wellformed:
  assumes "0 \<le> w" "w < 2 ^ 32" "0 \<le> h"
  shows "\<exists>b st'. createEmptyBoard st w h = (Inr b, st') \<and> store_preserved st st' \<and>
           width b = w \<and> height b = h \<and> board_shape st' b \<and> board_consistent st' b \<and>
           pawns_on_board st' b \<and> plain_dictionary st' b \<and> own_keys st' b = {} \<and>
           (\<forall>k. registered st' b k = None) \<and>
           (\<forall>r c. isValidPosition b r c \<longrightarrow> grid_get st' b r c = Inr Null)"
proof -
  define R where "R = replicate (nat h) (replicate (nat w) (Null::jsval))"
  define b where "b = \<lparr>width = w, height = int (nat h), pawns = length (regs st),
                        grid = map (\<lambda>i. length (rows st) + i) [0..<nat h]\<rparr>"
  define st' where
    "st' = st\<lparr>regs := regs st @ [\<lparr>own = Map.empty, proto = None\<rparr>], rows := rows st @ R\<rparr>"
  have R: "length R = nat h" "\<forall>x \<in> set R. length x = nat w"
    by (simp_all add: R_def)
  note f = appended_board [where R = R and n = "nat h" and w = w and st = st
        and M = "\<lparr>own = Map.empty, proto = None\<rparr>", OF R assms(1), folded b_def st'_def]
  have reg: "registered st' b k = None" for k
    by (simp add: registered_None_iff reg_get_def dict_get_def f(3))
  have pk: "plain_dictionary st' b" "own_keys st' b = {}"
    by (simp_all add: plain_dictionary_def own_keys_def f(3))
  have run: "createEmptyBoard st w h = (Inr b, st')"
    using assms
    by (simp add: createEmptyBoard_def createEmptyGrid_def createEmptyGridLoop_value
        b_def st'_def R_def)
  have cells: "grid_get st' b r c = Inr Null" if v: "isValidPosition b r c" for r c
  proof -
    from v assms(3) have "nat r < nat h" "nat c < nat w"
      by (auto simp: isValidPosition_def b_def split: if_splits)
    then show ?thesis using f(4) [OF v] by (simp add: R_def)
  qed
  have co: "board_consistent st' b"
  proof -
    have "grid_get st' b r c \<noteq> Inr (Str k)" for r c k
    proof
      assume a: "grid_get st' b r c = Inr (Str k)"
      from grid_get_defined_valid [OF f(1) a] cells a show False by simp
    qed
    with reg show ?thesis by (simp add: board_consistent_def registered_None_iff)
  qed
  from run f(1,2) cells co reg pk assms show ?thesis
    by (intro exI [of _ b] exI [of _ st'])
       (simp add: consistent_pawns_on_board, simp add: b_def)
qed

lemma initial_grid:
  "[L, Suc L, Suc (Suc L), Suc (Suc (Suc L)), Suc (Suc (Suc (Suc L))),
    Suc (Suc (Suc (Suc (Suc L)))), Suc (Suc (Suc (Suc (Suc (Suc L))))),
    Suc (Suc (Suc (Suc (Suc (Suc (Suc L))))))] = map (\<lambda>i. L + i) [0..<8]"
  by (simp add: eval_nat_numeral)

lemma spec_initialRows_shape:
  "length spec_initialRows = 8" "\<forall>x \<in> set spec_initialRows. length x = nat 8"
  by (simp_all add: spec_initialRows_def)

lemma spec_initialRows_nth:
  assumes "0 \<le> r" "r < 8" "0 \<le> c" "c < 8"
  shows "spec_initialRows ! nat r ! nat c = spec_initialCell r c"
proof -
  have "[0..7] ! nat r = r" "[0..7] ! nat c = c"
    using assms by simp_all
  moreover have "nat r < length [0..7]" "nat c < length [0..7]"
    using assms by simp_all
  ultimately show ?thesis
    by (simp add: spec_initialRows_def del: length_upto)
qed

lemma createInitialBoard_reads:
  "\<exists>b st'. createInitialBoard st = (Inr b, st') \<and> store_preserved st st' \<and>
      width b = 8 \<and> height b = 8 \<and> board_shape st' b \<and>
      regs st' ! pawns b = \<lparr>own = spec_initialRegistry, proto = None\<rparr> \<and>
      (\<forall>r c. isValidPosition b r c \<longrightarrow> grid_get st' b r c = Inr (spec_initialCell r c))"
proof -
  define b where "b = \<lparr>width = 8, height = int 8, pawns = length (regs st),
                        grid = map (\<lambda>i. length (rows st) + i) [0..<8]\<rparr>"
  define st' where "st' = st\<lparr>regs := regs st @ [\<lparr>own = spec_initialRegistry, proto = None\<rparr>],
                              rows := rows st @ spec_initialRows\<rparr>"
  note f = appended_board [where R = spec_initialRows and n = 8 and w = 8 and st = st
        and M = "\<lparr>own = spec_initialRegistry, proto = None\<rparr>", OF spec_initialRows_shape,
        folded b_def st'_def]
  have run: "createInitialBoard st = (Inr b, st')"
    by (simp add: createInitialBoard_value initial_grid b_def st'_def)
  have "grid_get st' b r c = Inr (spec_initialCell r c)" if v: "isValidPosition b r c" for r c
  proof -
    from v have "0 \<le> r" "r < 8" "0 \<le> c" "c < 8"
      by (simp_all add: isValidPosition_def b_def)
    then show ?thesis using f(4) [OF _ v] by (simp add: spec_initialRows_nth)
  qed
  with run f(1,2,3) show ?thesis
    by (intro exI [of _ b] exI [of _ st']) (simp add: b_def)
qed


lemma map_upds_distinct_lookup:
  "distinct (map f xs) \<Longrightarrow> x \<in> set xs \<Longrightarrow> (m(map f xs [\<mapsto>] map g xs)) (f x) = Some (g x)"
proof (induction xs arbitrary: m)
  case Nil
  then show ?case by simp
next
  case (Cons a xs)
  show ?case
  proof (cases "x \<in> set xs")
    case True
    with Cons.prems have "distinct (map f xs)" by simp
    from Cons.IH [OF this True, of "m(f a \<mapsto> g a)"] show ?thesis
      by (simp only: list.map map_upds_Cons)
  next
    case False
    with Cons.prems have xa: "x = a" and "f a \<notin> set (map f xs)" by auto
    from this(2) have "((m(f a \<mapsto> g a))(map f xs [\<mapsto>] map g xs)) (f a) = (m(f a \<mapsto> g a)) (f a)"
      by (rule map_upds_apply_nontin)
    then show ?thesis
      unfolding xa by (simp only: list.map map_upds_Cons fun_upd_same)
  qed
qed

lemma spec_keys_distinct: "distinct (map (\<lambda>n. pawn_id (spec_initialPawn n)) [1..32])"
  by (simp add: spec_initialPawn_def numToString_def natToString.simps upto_rec1)

lemma spec_keys_inj: "inj_on (\<lambda>n. pawn_id (spec_initialPawn n)) {1..32}"
  using spec_keys_distinct by (simp add: distinct_map)

lemma spec_initialRegistry_lookup:
  "n \<in> {1..32} \<Longrightarrow> spec_initialRegistry (pawn_id (spec_initialPawn n)) = Some (spec_initialPawn n)"
  unfolding spec_initialRegistry_def
  using map_upds_distinct_lookup [OF spec_keys_distinct, of n Map.empty spec_initialPawn]
  by simp

lemma spec_initialRegistry_dom:
  "dom spec_initialRegistry = (\<lambda>n. pawn_id (spec_initialPawn n)) ` {1..32}"
  by (simp add: spec_initialRegistry_def)

lemma spec_initialRegistry_entry:
  assumes "spec_initialRegistry k = Some p"
  shows "\<exists>n \<in> {1..32}. k = pawn_id (spec_initialPawn n) \<and> p = spec_initialPawn n"
proof -
  from assms have "k \<in> dom spec_initialRegistry" by auto
  then obtain n where n: "n \<in> {1..32}" "k = pawn_id (spec_initialPawn n)"
    by (auto simp: spec_initialRegistry_dom)
  with spec_initialRegistry_lookup [OF n(1)] assms show ?thesis by auto
qed

lemma spec_keys_card: "card ((\<lambda>n. pawn_id (spec_initialPawn n)) ` {1..32}) = 32"
  by (simp add: card_image [OF spec_keys_inj])

lemma spec_initialRegistry_by_color:
  "{k. \<exists>p. spec_initialRegistry k = Some p \<and> color p = ''white''} =
     (\<lambda>n. pawn_id (spec_initialPawn n)) ` {1..16}"
  "{k. \<exists>p. spec_initialRegistry k = Some p \<and> color p = ''black''} =
     (\<lambda>n. pawn_id (spec_initialPawn n)) ` {17..32}"
proof -
  have col: "color (spec_initialPawn n) = (if n \<le> 16 then ''white'' else ''black'')" for n
    by (simp add: spec_initialPawn_def)
  show "{k. \<exists>p. spec_initialRegistry k = Some p \<and> color p = ''white''} =
          (\<lambda>n. pawn_id (spec_initialPawn n)) ` {1..16}"
  proof (intro equalityI subsetI)
    fix k assume "k \<in> {k. \<exists>p. spec_initialRegistry k = Some p \<and> color p = ''white''}"
    then obtain p where "spec_initialRegistry k = Some p" "color p = ''white''" by blast
    with spec_initialRegistry_entry [of k p] col
    show "k \<in> (\<lambda>n. pawn_id (spec_initialPawn n)) ` {1..16}"
      by (auto split: if_splits)
  next
    fix k assume "k \<in> (\<lambda>n. pawn_id (spec_initialPawn n)) ` {1..16}"
    then obtain n where n: "n \<in> {1..16}" "k = pawn_id (spec_initialPawn n)" by blast
    then have "n \<in> {1..32}" by simp
    from spec_initialRegistry_lookup [OF this] n col [of n]
    show "k \<in> {k. \<exists>p. spec_initialRegistry k = Some p \<and> color p = ''white''}" by simp
  qed
  show "{k. \<exists>p. spec_initialRegistry k = Some p \<and> color p = ''black''} =
          (\<lambda>n. pawn_id (spec_initialPawn n)) ` {17..32}"
  proof (intro equalityI subsetI)
    fix k assume "k \<in> {k. \<exists>p. spec_initialRegistry k = Some p \<and> color p = ''black''}"
    then obtain p where "spec_initialRegistry k = Some p" "color p = ''black''" by blast
    with spec_initialRegistry_entry [of k p] col
    show "k \<in> (\<lambda>n. pawn_id (spec_initialPawn n)) ` {17..32}"
      by (auto split: if_splits)
  next
    fix k assume "k \<in> (\<lambda>n. pawn_id (spec_initialPawn n)) ` {17..32}"
    then obtain n where n: "n \<in> {17..32}" "k = pawn_id (spec_initialPawn n)" by blast
    then have "n \<in> {1..32}" by simp
    from spec_initialRegistry_lookup [OF this] n col [of n]
    show "k \<in> {k. \<exists>p. spec_initialRegistry k = Some p \<and> color p = ''black''}" by simp
  qed
qed

lemma spec_initialRegistry_counts:
  "card {k. \<exists>p. spec_initialRegistry k = Some p \<and> color p = ''white''} = 16"
  "card {k. \<exists>p. spec_initialRegistry k = Some p \<and> color p = ''black''} = 16"
proof -
  have "inj_on (\<lambda>n. pawn_id (spec_initialPawn n)) {1..16}"
    "inj_on (\<lambda>n. pawn_id (spec_initialPawn n)) {17..32}"
    using spec_keys_inj by (auto intro: inj_on_subset)
  then show "card {k. \<exists>p. spec_initialRegistry k = Some p \<and> color p = ''white''} = 16"
    "card {k. \<exists>p. spec_initialRegistry k = Some p \<and> color p = ''black''} = 16"
    by (simp_all add: spec_initialRegistry_by_color card_image)
qed

lemma spec_initial_cell_of_pawn:
  assumes "n \<in> {1..32}"
  shows "0 \<le> row (position (spec_initialPawn n)) \<and> row (position (spec_initialPawn n)) < 8 \<and>
         0 \<le> col (position (spec_initialPawn n)) \<and> col (position (spec_initialPawn n)) < 8 \<and>
         spec_initialCell (row (position (spec_initialPawn n))) (col (position (spec_initialPawn n)))
           = Str (pawn_id (spec_initialPawn n))"
proof (cases "n \<le> 16")
  case True
  have "2 * ((n - 1) div 2) + (n - 1) mod 2 + 1 = n" by presburger
  moreover have "(n - 1) mod 2 \<le> 1" "0 \<le> (n - 1) mod 2" by presburger+
  moreover have "0 \<le> (n - 1) div 2" "(n - 1) div 2 < 8" using assms True by auto
  ultimately show ?thesis using True by (simp add: spec_initialPawn_def spec_initialCell_def)
next
  case False
  have "2 * ((n - 17) div 2) + (6 + (n - 17) mod 2) + 11 = n" by presburger
  moreover have "(n - 17) mod 2 \<le> 1" "0 \<le> (n - 17) mod 2" by presburger+
  moreover have "0 \<le> (n - 17) div 2" "(n - 17) div 2 < 8" using assms False by auto
  ultimately show ?thesis using False by (simp add: spec_initialPawn_def spec_initialCell_def)
qed

lemma spec_initial_pawn_of_cell:
  assumes "0 \<le> r" "r < 8" "0 \<le> c" "c < 8" "spec_initialCell r c = Str k"
  shows "\<exists>n \<in> {1..32}. k = pawn_id (spec_initialPawn n) \<and>
           position (spec_initialPawn n) = \<lparr>row = r, col = c\<rparr>"
proof (cases "r \<le> 1")
  case True
  have "(2 * c + r + 1 - 1) mod 2 = r" "(2 * c + r + 1 - 1) div 2 = c"
    using assms(1) True by presburger+
  with assms True show ?thesis
    by (intro bexI [of _ "2 * c + r + 1"]) (auto simp: spec_initialPawn_def spec_initialCell_def)
next
  case False
  with assms(5) have r6: "6 \<le> r"
    by (auto simp: spec_initialCell_def split: if_splits)
  have "6 + (2 * c + r + 11 - 17) mod 2 = r" "(2 * c + r + 11 - 17) div 2 = c"
    using r6 assms(2) by presburger+
  with assms False r6 show ?thesis
    by (intro bexI [of _ "2 * c + r + 11"]) (auto simp: spec_initialPawn_def spec_initialCell_def)
qed

lemma spec_initialRegistry_proto: "spec_initialRegistry ''__proto__'' = None"
proof -
  have "''__proto__'' \<notin> dom spec_initialRegistry"
    by (auto simp: spec_initialRegistry_dom spec_initialPawn_def split: if_splits)
  then show ?thesis by auto
qed

lemma initial_registered:
  assumes "regs st ! pawns b = \<lparr>own = spec_initialRegistry, proto = None\<rparr>"
  shows "registered st b = spec_initialRegistry"
proof
  fix k
  show "registered st b k = spec_initialRegistry k"
    using spec_initialRegistry_proto
    by (cases "spec_initialRegistry k")
       (auto simp: registered_def reg_get_def dict_get_def assms split: property.splits)
qed

lemma initial_layout_consistent:
  assumes sh: "board_shape st b" and dims: "width b = 8" "height b = 8"
    and R: "registered st b = spec_initialRegistry"
    and G: "\<forall>r c. isValidPosition b r c \<longrightarrow> grid_get st b r c = Inr (spec_initialCell r c)"
  shows "board_consistent st b"
proof -
  have pawn: "grid_get st b (row (position p)) (col (position p)) = Inr (Str (pawn_id p)) \<and>
              pawn_id p = k"
    if "spec_initialRegistry k = Some p" for k p
  proof -
    from spec_initialRegistry_entry [OF that] obtain n where
      n: "n \<in> {1..32}" "k = pawn_id (spec_initialPawn n)" "p = spec_initialPawn n" by blast
    from spec_initial_cell_of_pawn [OF n(1)] G show ?thesis
      by (simp add: n isValidPosition_def dims)
  qed
  show ?thesis
    unfolding board_consistent_view R
  proof (rule consistentI)
    fix r c k
    assume a: "grid_get st b r c = Inr (Str k)"
    from grid_get_defined_valid [OF sh a] have v: "isValidPosition b r c" by simp
    with G a have "spec_initialCell r c = Str k" by simp
    with v spec_initial_pawn_of_cell [of r c k] obtain n where
      n: "n \<in> {1..32}" "k = pawn_id (spec_initialPawn n)"
        "position (spec_initialPawn n) = \<lparr>row = r, col = c\<rparr>"
      by (auto simp: isValidPosition_def dims)
    with spec_initialRegistry_lookup [OF n(1)]
    show "\<exists>p. spec_initialRegistry k = Some p \<and> position p = \<lparr>row = r, col = c\<rparr>" by simp
  next
    fix k p
    assume "spec_initialRegistry k = Some p"
    from pawn [OF this]
    show "grid_get st b (row (position p)) (col (position p)) = Inr (Str (pawn_id p))" by simp
  next
    fix k k' p p'
    assume "spec_initialRegistry k = Some p" "spec_initialRegistry k' = Some p'"
      "position p = position p'"
    with pawn [of k p] pawn [of k' p'] show "k = k'" by simp
  qed
qed

text \<open>
  C8. In any store \<open>createInitialBoard\<close> returns, leaving the objects of the store as
  they were, a well-formed board of width 8 and height 8 whose registry holds exactly the
  32 pawns of the layout above: its own properties are the ids \<open>W1\<close> to \<open>W16\<close> for 16
  white pawns and \<open>B17\<close> to \<open>B32\<close> for 16 black pawns, none of which has moved, each
  read under its id with its position, and it reads no other pawn; the cells of rows 0,
  1, 6 and 7 hold the ids of the pawns standing there and every other cell is \<open>null\<close>.
\<close>

theorem createInitialBoard_layout:
  "\<exists>b st'. createInitialBoard st = (Inr b, st') \<and> store_preserved st st' \<and>
      width b = 8 \<and> height b = 8 \<and> board_shape st' b \<and> board_consistent st' b \<and>
      (\<forall>n \<in> {1..32}. reg_get st' b (pawn_id (spec_initialPawn n)) = PawnObject (spec_initialPawn n)) \<and>
      own_keys st' b = (\<lambda>n. pawn_id (spec_initialPawn n)) ` {1..32} \<and>
      card (own_keys st' b) = 32 \<and> plain_dictionary st' b \<and>
      card {k. \<exists>p. reg_get st' b k = PawnObject p \<and> color p = ''white''} = 16 \<and>
      card {k. \<exists>p. reg_get st' b k = PawnObject p \<and> color p = ''black''} = 16 \<and>
      (\<forall>k p. reg_get st' b k = PawnObject p \<longrightarrow> k \<in> own_keys st' b \<and> \<not> hasMoved p) \<and>
      (\<forall>r c. isValidPosition b r c \<longrightarrow> grid_get st' b r c = Inr (spec_initialCell r c))"
proof -
  from createInitialBoard_reads [of st] obtain b st' where
    run: "createInitialBoard st = (Inr b, st')" and pr: "store_preserved st st'"
    and dims: "width b = 8" "height b = 8" and sh: "board_shape st' b"
    and D: "regs st' ! pawns b = \<lparr>own = spec_initialRegistry, proto = None\<rparr>"
    and G: "\<forall>r c. isValidPosition b r c \<longrightarrow> grid_get st' b r c = Inr (spec_initialCell r c)"
    by blast
  note R = initial_registered [OF D]
  have rd: "reg_get st' b k = PawnObject p \<longleftrightarrow> spec_initialRegistry k = Some p" for k p
    by (simp add: registered_iff [symmetric] R)
  have ok: "own_keys st' b = dom spec_initialRegistry" and pl: "plain_dictionary st' b"
    by (simp_all add: own_keys_def plain_dictionary_def D)
  have nm: "\<forall>k p. spec_initialRegistry k = Some p \<longrightarrow> k \<in> dom spec_initialRegistry \<and> \<not> hasMoved p"
  proof (intro allI impI)
    fix k p assume a: "spec_initialRegistry k = Some p"
    from spec_initialRegistry_entry [OF a] have "\<not> hasMoved p"
      by (auto simp: spec_initialPawn_def split: if_splits)
    with a show "k \<in> dom spec_initialRegistry \<and> \<not> hasMoved p" by auto
  qed
  note co = initial_layout_consistent [OF sh dims R G]
  show ?thesis
    using run pr dims sh co G nm pl
    by (intro exI [of _ b] exI [of _ st'])
       (simp add: rd ok spec_initialRegistry_lookup spec_initialRegistry_dom spec_keys_card
          spec_initialRegistry_counts)
qed

theorem createInitialBoard_layout_witness:
  "\<exists>b st'. createInitialBoard \<lparr>regs = [], rows = []\<rparr> = (Inr b, st') \<and>
      (1::int) \<in> {1..32} \<and>
      reg_get st' b ''W1'' =
        PawnObject \<lparr>pawn_id = ''W1'', color = ''white'', position = \<lparr>row = 0, col = 0\<rparr>, hasMoved = False\<rparr> \<and>
      (18::int) \<in> {1..32} \<and>
      reg_get st' b ''B18'' =
        PawnObject \<lparr>pawn_id = ''B18'', color = ''black'', position = \<lparr>row = 7, col = 0\<rparr>, hasMoved = False\<rparr> \<and>
      isValidPosition b 1 7 \<and> grid_get st' b 1 7 = Inr (Str ''W16'') \<and>
      isValidPosition b 3 3 \<and> grid_get st' b 3 3 = Inr Null \<and>
      isValidPosition b 6 0 \<and> grid_get st' b 6 0 = Inr (Str ''B17'')"
proof -
  from createInitialBoard_layout [of "\<lparr>regs = [], rows = []\<rparr>"] obtain b st' where
    run: "createInitialBoard \<lparr>regs = [], rows = []\<rparr> = (Inr b, st')"
    and dims: "width b = 8" "height b = 8"
    and R: "\<forall>n \<in> {1..32}. reg_get st' b (pawn_id (spec_initialPawn n)) = PawnObject (spec_initialPawn n)"
    and G: "\<forall>r c. isValidPosition b r c \<longrightarrow> grid_get st' b r c = Inr (spec_initialCell r c)"
    by blast
  have v: "isValidPosition b 1 7" "isValidPosition b 3 3" "isValidPosition b 6 0"
    by (simp_all add: isValidPosition_def dims)
  from R have "reg_get st' b (pawn_id (spec_initialPawn 1)) = PawnObject (spec_initialPawn 1)"
    "reg_get st' b (pawn_id (spec_initialPawn 18)) = PawnObject (spec_initialPawn 18)"
    by simp_all
  then have r: "reg_get st' b ''W1'' =
        PawnObject \<lparr>pawn_id = ''W1'', color = ''white'', position = \<lparr>row = 0, col = 0\<rparr>, hasMoved = False\<rparr>"
    "reg_get st' b ''B18'' =
        PawnObject \<lparr>pawn_id = ''B18'', color = ''black'', position = \<lparr>row = 7, col = 0\<rparr>, hasMoved = False\<rparr>"
    by (simp_all add: spec_initialPawn_def numToString_def natToString.simps)
  from G v have "grid_get st' b 1 7 = Inr (spec_initialCell 1 7)"
    "grid_get st' b 3 3 = Inr (spec_initialCell 3 3)"
    "grid_get st' b 6 0 = Inr (spec_initialCell 6 0)"
    by simp_all
  then have g: "grid_get st' b 1 7 = Inr (Str ''W16'')" "grid_get st' b 3 3 = Inr Null"
    "grid_get st' b 6 0 = Inr (Str ''B17'')"
    by (simp_all add: spec_initialCell_def numToString_def natToString.simps)
  from run v r g show ?thesis by auto
qed

end
